theory Spec2Isabelle
  imports Complex_Main
begin

section \<open>The TIFF imagery provider: data model\<close>

text \<open>
  The provider of \<^verbatim>\<open>TIFFImageryProvider.ts\<close> is embedded as pure functions. JavaScript
  numbers are modelled by \<open>int\<close> where the code only ever holds integers (image counts,
  overview indices, zoom levels, pixel sizes, millisecond time stamps), by \<open>real\<close> for
  degrees, radians and band values where only their order and equality matter, and by
  doubles with their rounding, infinities and \<^verbatim>\<open>NaN\<close> in the feature probe, whose result
  is truncated to a pixel index. A value that may be \<^verbatim>\<open>undefined\<close> is an \<open>option\<close>. Every
  \<^verbatim>\<open>throw\<close> and every rejected promise is the \<open>Inl\<close> branch of a sum.
\<close>

datatype error =
    DeveloperError string
  | TypeError string
  | RangeError string
  | Error string
  | Rejected string

text \<open>\<open>Rejected\<close> is a failure raised by a collaborator (the decode library, the worker
  farm, the plot engine); its argument is the message.\<close>

fun message :: "error \<Rightarrow> string" where
  "message (DeveloperError m) = m"
| "message (TypeError m) = m"
| "message (RangeError m) = m"
| "message (Error m) = m"
| "message (Rejected m) = m"

record geoKeys =
  ProjectedCSTypeGeoKey :: "int option"
  GeographicTypeGeoKey :: "int option"

text \<open>A \<^verbatim>\<open>GeoTIFFImage\<close> as the provider consumes it: the values its getters return.\<close>

record image =
  getWidth :: int
  getHeight :: int
  getTileWidth :: int
  getTileHeight :: int
  getSamplesPerPixel :: int
  getGDALNoData :: "real option"
  getBoundingBox :: "real \<times> real \<times> real \<times> real"
  geoKeys :: geoKeys
  getGDALMetadata :: "int \<Rightarrow> (string \<rightharpoonup> string) option"

text \<open>The \<^verbatim>\<open>GeoTIFF\<close> source is its \<^verbatim>\<open>getImage(index)\<close>: the index may be
  \<^verbatim>\<open>undefined\<close>, and the promise may reject.\<close>

type_synonym geotiff = "int option \<Rightarrow> error + image"

section \<open>The pyramid level selector\<close>

text \<open>\<^verbatim>\<open>levels.push(...new Array(firstImageLevel).fill(i))\<close>: the array constructor throws a
  \<^verbatim>\<open>RangeError\<close> on a negative length and on one above \<open>2^32 - 1\<close>.\<close>

definition pushFill :: "int list \<Rightarrow> int \<Rightarrow> int \<Rightarrow> error + int list" where
  "pushFill levels firstImageLevel i =
     (if firstImageLevel < 0 \<or> firstImageLevel > 4294967295
      then Inl (RangeError ''Invalid array length'')
      else Inr (levels @ replicate (nat firstImageLevel) i))"

text \<open>The \<^verbatim>\<open>for (let i = imageCount - 1; i >= 0; i--)\<close> loop of \<^verbatim>\<open>getCogLevels\<close>. The
  counter of the recursion is \<open>i + 1\<close>. The result is the list \<open>levels\<close> and the variable
  \<open>maximumLevel\<close> as the loop leaves them: at the \<^verbatim>\<open>break\<close>, or with
  \<open>maximumLevel = imageCount - 1\<close> untouched when the loop runs out. The factory calls the
  selector with \<^verbatim>\<open>image.getTileWidth() || 512\<close>, a tile size that is never 0.\<close>

fun scanLevels :: "geotiff \<Rightarrow> int \<Rightarrow> int \<Rightarrow> nat \<Rightarrow> int list \<Rightarrow> error + (int list \<times> int)" where
  "scanLevels source imageCount tileSize 0 levels = Inr (levels, imageCount - 1)"
| "scanLevels source imageCount tileSize (Suc k) levels =
     (let i = int k in
      case source (Some i) of
        Inl e \<Rightarrow> Inl e
      | Inr img \<Rightarrow>
          (let imgSize = max (getWidth img) (getHeight img) in
           case (if i = imageCount - 1
                 then pushFill levels \<lceil>real_of_int (imgSize - tileSize) / real_of_int tileSize\<rceil> i
                 else Inr levels) of
             Inl e \<Rightarrow> Inl e
           | Inr levels' \<Rightarrow>
               if real_of_int imgSize > real_of_int tileSize * 0.5
               then Inr (levels', i)
               else scanLevels source imageCount tileSize k levels'))"

text \<open>\<^verbatim>\<open>while (nowCogLevel >= 0) { levels.push(nowCogLevel--) }\<close>\<close>

function whileLevels :: "int \<Rightarrow> int list \<Rightarrow> int list" where
  "whileLevels nowCogLevel levels =
     (if nowCogLevel \<ge> 0 then whileLevels (nowCogLevel - 1) (levels @ [nowCogLevel])
      else levels)"
  by pat_completeness auto
termination
  by (relation "measure (\<lambda>(n, levels). nat (n + 1))") auto

declare whileLevels.simps [simp del]

definition getCogLevels :: "geotiff \<Rightarrow> nat \<Rightarrow> int \<Rightarrow> error + int list" where
  "getCogLevels source imageCount tileSize =
     (case scanLevels source (int imageCount) tileSize imageCount [] of
        Inl e \<Rightarrow> Inl e
      | Inr (levels, maximumLevel) \<Rightarrow> Inr (whileLevels maximumLevel levels))"

text \<open>A two-image pyramid: image 0 is the full-resolution image of 1024 x 1024 pixels,
  image 1 its 512 x 512 overview; both in 512-pixel tiles.\<close>

definition squareImage :: "int \<Rightarrow> image" where
  "squareImage n =
     \<lparr> getWidth = n, getHeight = n, getTileWidth = 512, getTileHeight = 512,
       getSamplesPerPixel = 1, getGDALNoData = None,
       getBoundingBox = (0, 0, 10, 10),
       geoKeys = \<lparr> ProjectedCSTypeGeoKey = None, GeographicTypeGeoKey = Some 4326 \<rparr>,
       getGDALMetadata = (\<lambda>i. None) \<rparr>"

definition twoLevelSource :: geotiff where
  "twoLevelSource index =
     (case index of
        None \<Rightarrow> Inr (squareImage 1024)
      | Some i \<Rightarrow>
          if i = 0 then Inr (squareImage 1024)
          else if i = 1 then Inr (squareImage 512)
          else Inl (RangeError ''Invalid image index''))"

text \<open>The sources the level selector is meant for: every image below \<open>imageCount\<close> can
  be fetched and has a positive size that fits an array length.\<close>

definition wellFormedSource :: "geotiff \<Rightarrow> nat \<Rightarrow> bool" where
  "wellFormedSource source imageCount \<longleftrightarrow>
     (\<forall>k < imageCount. \<exists>img. source (Some (int k)) = Inr img
        \<and> 0 < max (getWidth img) (getHeight img)
        \<and> max (getWidth img) (getHeight img) \<le> 4294967296)"

section \<open>Render options and band ranges\<close>

text \<open>A key of an options object that a spread copies: it can be absent, be present
  holding \<^verbatim>\<open>undefined\<close> or \<^verbatim>\<open>null\<close>, or hold a value. The three differ where the constructor
  spreads the caller's options over its defaults.\<close>

datatype 'a key = Absent | Nullish | Holds 'a

text \<open>\<^verbatim>\<open>SingleBandRenderOptions\<close>, \<^verbatim>\<open>MultiBandRenderOptions\<close> and
  \<^verbatim>\<open>TIFFImageryProviderRenderOptions\<close>. For the keys that are only ever tested or read
  with \<^verbatim>\<open>??\<close>, \<open>None\<close> stands for absent and for \<^verbatim>\<open>undefined\<close> alike. Of the single-band
  options only the fields the provider itself reads are kept; the others are handed to
  the plot engine unread. The \<open>multi\<close> object is the list of its own keys with their
  values, in the order \<^verbatim>\<open>Object.keys\<close> gives them (the order they were inserted in), every
  key at most once; a value \<open>None\<close> is a key that holds \<^verbatim>\<open>undefined\<close>.\<close>

record singleBand =
  band :: "int option"
  colorScale :: "string option"
  colors :: "string list option"
  domain :: "(real \<times> real) option"
  expression :: "string option"

record channel =
  chBand :: int
  chMin :: "real option"
  chMax :: "real option"

datatype channelKey = KeyR | KeyG | KeyB

type_synonym multiBand = "(channelKey \<times> channel option) list"

text \<open>\<^verbatim>\<open>multi[key]\<close>\<close>

definition channelOf :: "multiBand \<Rightarrow> channelKey \<Rightarrow> channel option" where
  "channelOf m k = (case map_of m k of Some (Some ch) \<Rightarrow> Some ch | _ \<Rightarrow> None)"

record renderOptions =
  nodata :: "real option"
  convertToRGB :: "bool key"
  multi :: "multiBand option"
  single :: "singleBand key"

record bandRange =
  rangeMin :: real
  rangeMax :: real

type_synonym bandTable = "int \<rightharpoonup> bandRange"

text \<open>JavaScript truthiness of an optional string and of the \<open>convertToRGB\<close> key.\<close>

definition truthyString :: "string option \<Rightarrow> bool" where
  "truthyString s = (case s of None \<Rightarrow> False | Some t \<Rightarrow> t \<noteq> [])"

definition truthyBool :: "bool key \<Rightarrow> bool" where
  "truthyBool b = (case b of Holds v \<Rightarrow> v | _ \<Rightarrow> False)"

text \<open>The \<open>single\<close> object when the key is truthy.\<close>

definition singleOf :: "singleBand key \<Rightarrow> singleBand option" where
  "singleOf k = (case k of Holds sb \<Rightarrow> Some sb | _ \<Rightarrow> None)"

text \<open>\<^verbatim>\<open>single?.expression\<close> as a condition.\<close>

definition hasExpression :: "singleBand key \<Rightarrow> bool" where
  "hasExpression k =
     (case singleOf k of None \<Rightarrow> False | Some sb \<Rightarrow> truthyString (expression sb))"

section \<open>The decode collaborator\<close>

text \<open>The options object of a windowed read, a decoded raster (one array per band; \<open>None\<close>
  is the sample \<^verbatim>\<open>NaN\<close>), and the record of one read that was issued.\<close>

record readOptions =
  window :: "(int \<times> int \<times> int \<times> int) option"
  width :: "int option"
  height :: "int option"
  samples :: "int list option"
  resample :: "string option"

type_synonym raster = "real option list list"

datatype decodeCall = ReadRGB image readOptions | ReadRasters image readOptions

record decoder =
  readRGB :: "image \<Rightarrow> readOptions \<Rightarrow> error + raster"
  readRasters :: "image \<Rightarrow> readOptions \<Rightarrow> error + raster"

section \<open>Read samples and band statistics\<close>

text \<open>\<^verbatim>\<open>getReadSamples\<close>. Reading \<^verbatim>\<open>multi.r.band\<close> of an absent channel throws.
  \<^verbatim>\<open>findAndSortBandNumbers\<close> belongs to the module \<^verbatim>\<open>utils\<close> and is a parameter.\<close>

definition channelBand :: "channel option \<Rightarrow> error + int" where
  "channelBand c =
     (case c of
        None \<Rightarrow> Inl (TypeError ''Cannot read properties of undefined (reading band)'')
      | Some ch \<Rightarrow> Inr (chBand ch))"

definition getReadSamples :: "(string \<Rightarrow> int list) \<Rightarrow> renderOptions \<Rightarrow> error + int list" where
  "getReadSamples findAndSortBandNumbers ro =
     (case (case multi ro of
              Some m \<Rightarrow>
                (case channelBand (channelOf m KeyR) of Inl e \<Rightarrow> Inl e | Inr rb \<Rightarrow>
                 case channelBand (channelOf m KeyG) of Inl e \<Rightarrow> Inl e | Inr gb \<Rightarrow>
                 case channelBand (channelOf m KeyB) of Inl e \<Rightarrow> Inl e | Inr bb \<Rightarrow>
                   Inr [rb - 1, gb - 1, bb - 1])
            | None \<Rightarrow> if truthyBool (convertToRGB ro) then Inr [0, 1, 2] else Inr [0]) of
        Inl e \<Rightarrow> Inl e
      | Inr rs \<Rightarrow>
          (case singleOf (single ro) of
             Some sb \<Rightarrow>
               (case expression sb of
                  Some ex \<Rightarrow> if ex \<noteq> [] then Inr (findAndSortBandNumbers ex) else Inr rs
                | None \<Rightarrow> Inr rs)
           | None \<Rightarrow> Inr rs))"

text \<open>The embedded statistics of one band: both \<^verbatim>\<open>STATISTICS_MINIMUM\<close> and
  \<^verbatim>\<open>STATISTICS_MAXIMUM\<close> must be truthy, which for the strings of the GDAL metadata
  means present and not empty. The unary \<^verbatim>\<open>+\<close> that turns the string into a number is the
  parameter \<open>toNumber\<close>.\<close>

definition embeddedStatistics :: "image \<Rightarrow> int \<Rightarrow> (string \<times> string) option" where
  "embeddedStatistics img i =
     (case getGDALMetadata img i of
        None \<Rightarrow> None
      | Some element \<Rightarrow>
          (case (element ''STATISTICS_MINIMUM'', element ''STATISTICS_MAXIMUM'') of
             (Some lo, Some hi) \<Rightarrow> if lo \<noteq> [] \<and> hi \<noteq> [] then Some (lo, hi) else None
           | _ \<Rightarrow> None))"

text \<open>\<^verbatim>\<open>multi[Object.keys(multi).find((key) => multi[key]?.band === bandNum)]\<close>\<close>

definition findChannel :: "multiBand \<Rightarrow> int \<Rightarrow> channel option" where
  "findChannel m bandNum =
     (case List.find (\<lambda>k. case channelOf m k of None \<Rightarrow> False | Some ch \<Rightarrow> chBand ch = bandNum)
             (map fst m) of
        None \<Rightarrow> None
      | Some k \<Rightarrow> channelOf m k)"

text \<open>The callback of \<^verbatim>\<open>readSamples.map\<close> up to its first \<^verbatim>\<open>await\<close>: it writes the range
  of band \<open>i + 1\<close> when one of the first four sources gives it, and says whether the
  band goes on to the sampling fallback.\<close>

definition bandSync ::
  "(string \<Rightarrow> real) \<Rightarrow> renderOptions \<Rightarrow> image \<Rightarrow> bandTable \<Rightarrow> int \<Rightarrow> bandTable \<times> bool" where
  "bandSync toNumber ro img bt i =
     (let bandNum = i + 1 in
      case embeddedStatistics img i of
        Some (lo, hi) \<Rightarrow>
          (bt(bandNum \<mapsto> \<lparr> rangeMin = toNumber lo, rangeMax = toNumber hi \<rparr>), False)
      | None \<Rightarrow>
          (let bt1 = (if truthyBool (convertToRGB ro)
                      then bt(bandNum \<mapsto> \<lparr> rangeMin = 0, rangeMax = 255 \<rparr>) else bt);
               bt2 = (case multi ro of
                        None \<Rightarrow> bt1
                      | Some m \<Rightarrow>
                          (case findChannel m bandNum of
                             None \<Rightarrow> bt1
                           | Some inputBand \<Rightarrow>
                               (case (chMin inputBand, chMax inputBand) of
                                  (Some lo, Some hi) \<Rightarrow>
                                    bt1(bandNum \<mapsto> \<lparr> rangeMin = lo, rangeMax = hi \<rparr>)
                                | _ \<Rightarrow> bt1)));
               bt3 = (case singleOf (single ro) of
                        None \<Rightarrow> bt2
                      | Some sb \<Rightarrow>
                          (case domain sb of
                             None \<Rightarrow> bt2
                           | Some d \<Rightarrow>
                               if \<not> truthyString (expression sb) \<and> band sb = Some bandNum
                               then bt2(bandNum \<mapsto> \<lparr> rangeMin = fst d, rangeMax = snd d \<rparr>)
                               else bt2))
           in (bt3, \<not> hasExpression (single ro) \<and> bt3 bandNum = None)))"

text \<open>All callbacks run to their first \<^verbatim>\<open>await\<close> in the order of \<open>readSamples\<close>, before
  any of them resumes: the result is the table so far and the bands left pending.\<close>

fun bandsSync ::
  "(string \<Rightarrow> real) \<Rightarrow> renderOptions \<Rightarrow> image \<Rightarrow> bandTable \<Rightarrow> int list \<Rightarrow> bandTable \<times> int list" where
  "bandsSync toNumber ro img bt [] = (bt, [])"
| "bandsSync toNumber ro img bt (i # rest) =
     (case bandSync toNumber ro img bt i of
        (bt', pending) \<Rightarrow>
          (case bandsSync toNumber ro img bt' rest of
             (bt'', later) \<Rightarrow> (bt'', if pending then i # later else later)))"

text \<open>The rest of a pending callback: fetch the image of \<^verbatim>\<open>cogLevels[0]\<close>, read the whole
  band twice (once for the debug log), drop the \<^verbatim>\<open>NaN\<close> samples and take
  \<^verbatim>\<open>getMinMax\<close> (module \<^verbatim>\<open>utils\<close>, a parameter). The second component lists the reads
  issued.\<close>

definition fullBandRead :: "int \<Rightarrow> readOptions" where
  "fullBandRead i =
     \<lparr> window = None, width = None, height = None, samples = Some [i], resample = None \<rparr>"

definition bandFallback ::
  "geotiff \<Rightarrow> decoder \<Rightarrow> (real list \<Rightarrow> real option \<Rightarrow> bandRange) \<Rightarrow> int option \<Rightarrow> real option
     \<Rightarrow> int \<Rightarrow> (error + bandRange) \<times> decodeCall list" where
  "bandFallback source dec getMinMax level0 nd i =
     (case source level0 of
        Inl e \<Rightarrow> (Inl e, [])
      | Inr previewImage \<Rightarrow>
          (let call = ReadRasters previewImage (fullBandRead i) in
           case readRasters dec previewImage (fullBandRead i) of
             Inl e \<Rightarrow> (Inl e, [call])
           | Inr logged \<Rightarrow>
               (case readRasters dec previewImage (fullBandRead i) of
                  Inl e \<Rightarrow> (Inl e, [call, call])
                | Inr [] \<Rightarrow>
                    (Inl (TypeError ''Cannot read properties of undefined (reading filter)''),
                     [call, call])
                | Inr (first # others) \<Rightarrow>
                    (Inr (getMinMax (List.map_filter (\<lambda>item. item) first) nd), [call, call]))))"

text \<open>The pending callbacks run concurrently and none is cancelled: every one issues its
  reads. \<^verbatim>\<open>Promise.all\<close> rejects with the first rejection; the model takes the first in
  the order of the list.\<close>

fun bandFallbacks ::
  "geotiff \<Rightarrow> decoder \<Rightarrow> (real list \<Rightarrow> real option \<Rightarrow> bandRange) \<Rightarrow> int option \<Rightarrow> real option
     \<Rightarrow> bandTable \<Rightarrow> int list \<Rightarrow> (error + bandTable) \<times> decodeCall list" where
  "bandFallbacks source dec getMinMax level0 nd bt [] = (Inr bt, [])"
| "bandFallbacks source dec getMinMax level0 nd bt (i # rest) =
     (case bandFallback source dec getMinMax level0 nd i of
        (Inl e, calls) \<Rightarrow>
          (Inl e, calls @ snd (bandFallbacks source dec getMinMax level0 nd bt rest))
      | (Inr found, calls) \<Rightarrow>
          (case bandFallbacks source dec getMinMax level0 nd (bt(i + 1 \<mapsto> found)) rest of
             (res, calls') \<Rightarrow> (res, calls @ calls')))"

text \<open>\<^verbatim>\<open>cogLevels[z]\<close>: \<^verbatim>\<open>undefined\<close> outside the array.\<close>

definition levelAt :: "int list \<Rightarrow> int \<Rightarrow> int option" where
  "levelAt levels z = (if 0 \<le> z \<and> z < int (length levels) then Some (levels ! nat z) else None)"

record statistics =
  toNumber :: "string \<Rightarrow> real"
  getMinMax :: "real list \<Rightarrow> real option \<Rightarrow> bandRange"
  findAndSortBandNumbers :: "string \<Rightarrow> int list"

definition getBandValues ::
  "statistics \<Rightarrow> decoder \<Rightarrow> renderOptions \<Rightarrow> int list \<Rightarrow> geotiff \<Rightarrow> image \<Rightarrow> int list
     \<Rightarrow> (error + bandTable) \<times> decodeCall list" where
  "getBandValues st dec ro rs source img levels =
     (case bandsSync (toNumber st) ro img Map.empty rs of
        (bt, pending) \<Rightarrow>
          bandFallbacks source dec (getMinMax st) (levelAt levels 0)
            (case nodata ro of Some v \<Rightarrow> Some v | None \<Rightarrow> getGDALNoData img) bt pending)"

section \<open>Numbers as text\<close>

text \<open>The decimal text of an integer, as template literals and string concatenation
  produce it.\<close>

definition digitChar :: "nat \<Rightarrow> char" where
  "digitChar d = ''0123456789'' ! d"

function showNat :: "nat \<Rightarrow> string" where
  "showNat n = (if n < 10 then [digitChar n] else showNat (n div 10) @ [digitChar (n mod 10)])"
  by pat_completeness auto
termination
  by (relation "measure (\<lambda>n. n)") auto

declare showNat.simps [simp del]

definition showInt :: "int \<Rightarrow> string" where
  "showInt i = (if i < 0 then CHR ''-'' # showNat (nat (- i)) else showNat (nat i))"

section \<open>Spatial extent\<close>

text \<open>The rectangle of the Cesium library, in radians. \<^verbatim>\<open>Rectangle.fromDegrees\<close> multiplies
  each bound by \<open>pi / 180\<close>. The constructor's arithmetic on the rectangle is modelled in
  the reals.\<close>

record rectangle =
  west :: real
  south :: real
  east :: real
  north :: real

definition TWO_PI :: real where
  "TWO_PI = 2 * pi"

definition toRadians :: "real \<Rightarrow> real" where
  "toRadians d = d * (pi / 180)"

definition fromDegrees :: "real \<Rightarrow> real \<Rightarrow> real \<Rightarrow> real \<Rightarrow> rectangle" where
  "fromDegrees w s e n =
     \<lparr> west = toRadians w, south = toRadians s, east = toRadians e, north = toRadians n \<rparr>"

type_synonym projection = "real \<times> real \<Rightarrow> real \<times> real"

text \<open>What the constructor takes from modules other than the provider's own:
  \<^item> \<open>autoProjection\<close>: \<^verbatim>\<open>geokeysToProj4.toProj4\<close> followed by \<^verbatim>\<open>proj4(...).forward\<close>,
    \<open>None\<close> when one of them throws;
  \<^item> \<open>plotCreate\<close>: \<^verbatim>\<open>new plot({canvas, ...single, domain})\<close>, \<open>Some e\<close> when it throws \<open>e\<close>;
  \<^item> \<open>plotConfigure\<close>: the calls from \<^verbatim>\<open>setNoDataValue\<close> to \<^verbatim>\<open>setColorScale\<close>, \<open>Some e\<close>
    when one of them throws \<open>e\<close>;
  \<^item> \<open>workerStarted\<close>: whether the \<^verbatim>\<open>WorkerFarm\<close> has its \<^verbatim>\<open>worker\<close>.\<close>

record libraries =
  autoProjection :: "geoKeys \<Rightarrow> projection option"
  plotCreate :: "singleBand \<Rightarrow> real \<times> real \<Rightarrow> error option"
  plotConfigure :: "singleBand \<Rightarrow> real option \<Rightarrow> error option"
  workerStarted :: bool

text \<open>\<^verbatim>\<open>+(image.geoKeys.ProjectedCSTypeGeoKey ?? image.geoKeys.GeographicTypeGeoKey)\<close>;
  \<open>None\<close> is \<^verbatim>\<open>NaN\<close>.\<close>

definition prjCodeOf :: "image \<Rightarrow> int option" where
  "prjCodeOf img =
     (case ProjectedCSTypeGeoKey (geoKeys img) of
        Some c \<Rightarrow> Some c
      | None \<Rightarrow> GeographicTypeGeoKey (geoKeys img))"

definition showCode :: "int option \<Rightarrow> string" where
  "showCode c = (case c of None \<Rightarrow> ''NaN'' | Some i \<Rightarrow> showInt i)"

definition projectCorners :: "projection \<Rightarrow> real \<times> real \<times> real \<times> real \<Rightarrow> rectangle" where
  "projectCorners project bbox =
     (case bbox of (w, s, e, n) \<Rightarrow>
        (let leftBottom = project (w, s); rightTop = project (e, n)
         in fromDegrees (fst leftBottom) (snd leftBottom) (fst rightTop) (snd rightTop)))"

definition resolveRectangle ::
  "libraries \<Rightarrow> (int option \<Rightarrow> projection option) option \<Rightarrow> image \<Rightarrow> error + rectangle" where
  "resolveRectangle libs projFunc img =
     (let bbox = getBoundingBox img;
          prjCode = prjCodeOf img;
          proj = (case projFunc of None \<Rightarrow> None | Some f \<Rightarrow> f prjCode)
      in case proj of
           Some pr \<Rightarrow> Inr (projectCorners pr bbox)
         | None \<Rightarrow>
             if prjCode = Some 4326
             then (case bbox of (w, s, e, n) \<Rightarrow> Inr (fromDegrees w s e n))
             else (case autoProjection libs (geoKeys img) of
                     Some project \<Rightarrow> Inr (projectCorners project bbox)
                   | None \<Rightarrow>
                       Inl (DeveloperError (''Unspported projection type: EPSG:'' @ showCode prjCode
                              @ '', please add projFunc parameter to handle projection''))))"

text \<open>\<^verbatim>\<open>if (this.rectangle.east < this.rectangle.west) this.rectangle.east += CMath.TWO_PI\<close>\<close>

definition normalizeEast :: "rectangle \<Rightarrow> rectangle" where
  "normalizeEast rect = (if east rect < west rect then rect\<lparr> east := east rect + TWO_PI \<rparr> else rect)"

section \<open>The provider and its constructor\<close>

record options =
  opt_source :: geotiff
  opt_image :: image
  opt_imageCount :: nat
  opt_cogLevels :: "int list"
  opt_readSamples :: "int list"
  opt_bands :: bandTable
  opt_tileSize :: "int option"
  opt_maximumLevel :: "int option"
  opt_minimumLevel :: "int option"
  opt_enablePickFeatures :: "bool option"
  opt_hasAlphaChannel :: "bool option"
  opt_renderOptions :: "renderOptions option"
  opt_projFunc :: "(int option \<Rightarrow> projection option) option"
  opt_cache :: "int option"
  opt_resampleMethod :: "string option"

text \<open>The plot object of a single-band provider: the domain it was created with, the
  options spread into it, and whether its configuration ran to the end.\<close>

record plotState =
  plotDomain :: "real \<times> real"
  plotSingle :: singleBand
  plotConfigured :: bool

datatype imagery = Imagery nat

record cacheEntry =
  time :: int
  data :: imagery

text \<open>The provider object. Fields written \<^verbatim>\<open>this._name\<close> in the source are \<open>this_name\<close>
  here. \<open>this_error\<close> lists the values \<^verbatim>\<open>this._error.raiseEvent\<close> was called with, oldest
  first. \<open>this_images\<close> and \<open>this_imagesCache\<close> are \<open>None\<close> once \<^verbatim>\<open>destroy\<close> has set them
  to \<^verbatim>\<open>undefined\<close>; the array of images is keyed by whatever \<^verbatim>\<open>cogLevels[z]\<close> gave, the
  value \<^verbatim>\<open>undefined\<close> included, and the cache by the text \<^verbatim>\<open>x_y_z\<close>.\<close>

record provider =
  ready :: bool
  hasAlphaChannel :: bool
  maximumLevel :: int
  minimumLevel :: int
  this_error :: "error list"
  this_workerFarm :: bool
  this_cacheTime :: int
  this_source :: geotiff
  this_imageCount :: nat
  tileSize :: int
  tileWidth :: int
  tileHeight :: int
  cogLevels :: "int list"
  renderOptions :: renderOptions
  noData :: "real option"
  readSamples :: "int list"
  bands :: bandTable
  rectangle :: rectangle
  this_images :: "(int option \<rightharpoonup> image) option"
  this_imagesCache :: "(string \<rightharpoonup> cacheEntry) option"
  plot :: "plotState option"
  this_destroyed :: bool
  enablePickFeatures :: bool
  resampleMethod :: "string option"

definition emptyRenderOptions :: renderOptions where
  "emptyRenderOptions =
     \<lparr> nodata = None, convertToRGB = Absent, multi = None, single = Absent \<rparr>"

text \<open>\<^verbatim>\<open>a || b || 512\<close> on numbers: 0 is falsy.\<close>

definition orElse512 :: "int option \<Rightarrow> int \<Rightarrow> int" where
  "orElse512 a b =
     (case a of
        Some v \<Rightarrow> if v \<noteq> 0 then v else if b \<noteq> 0 then b else 512
      | None \<Rightarrow> if b \<noteq> 0 then b else 512)"

text \<open>The default mode, chosen when none of \<open>single\<close>, \<open>multi\<close>, \<open>convertToRGB\<close> is truthy.
  The object spreads \<^verbatim>\<open>{convertToRGB: true, ...this.renderOptions}\<close> and
  \<^verbatim>\<open>{single: {band: 1}, ...this.renderOptions}\<close> let a key that is present in the caller's
  options win over the default, whatever it holds: only an absent key takes the
  default.\<close>

definition defaultMode :: "int \<Rightarrow> renderOptions \<Rightarrow> renderOptions" where
  "defaultMode nSamples ro =
     (if singleOf (single ro) = None \<and> multi ro = None \<and> \<not> truthyBool (convertToRGB ro)
      then (if nSamples > 1
            then ro\<lparr> convertToRGB :=
                       (case convertToRGB ro of Absent \<Rightarrow> Holds True | held \<Rightarrow> held) \<rparr>
            else ro\<lparr> single :=
                       (case single ro of
                          Absent \<Rightarrow>
                            Holds \<lparr> band = Some 1, colorScale = None, colors = None,
                                    domain = None, expression = None \<rparr>
                        | held \<Rightarrow> held) \<rparr>)
      else ro)"

text \<open>\<^verbatim>\<open>if (this.renderOptions.single) this.renderOptions.single.band =
  this.renderOptions.single.band ?? 1\<close>\<close>

definition defaultBand :: "renderOptions \<Rightarrow> renderOptions" where
  "defaultBand ro =
     (case singleOf (single ro) of
        None \<Rightarrow> ro
      | Some sb \<Rightarrow>
          ro\<lparr> single :=
                Holds (sb\<lparr> band := (case band sb of None \<Rightarrow> Some 1 | Some b \<Rightarrow> Some b) \<rparr>) \<rparr>)"

text \<open>The \<^verbatim>\<open>try\<close> block that builds the plot object of a single-band provider, with its
  \<^verbatim>\<open>catch\<close>: the result is the plot object, if one was assigned, and the errors raised on
  the error event.\<close>

definition initPlot ::
  "libraries \<Rightarrow> renderOptions \<Rightarrow> bandTable \<Rightarrow> real option \<Rightarrow> plotState option \<times> error list" where
  "initPlot libs ro bt nd =
     (case singleOf (single ro) of
        None \<Rightarrow> (None, [])
      | Some sb \<Rightarrow>
          (let bandNum = (case band sb of None \<Rightarrow> 1 | Some b \<Rightarrow> b);
               found = bt bandNum
           in if \<not> truthyString (expression sb) \<and> found = None
              then (None, [DeveloperError (''Invalid band'' @ showInt bandNum)])
              else
                (case (case domain sb of
                         Some d \<Rightarrow> Inr d
                       | None \<Rightarrow>
                           (case found of
                              Some br \<Rightarrow> Inr (rangeMin br, rangeMax br)
                            | None \<Rightarrow>
                                Inl (TypeError ''Cannot read properties of undefined (reading min)''))) of
                   Inl e \<Rightarrow> (None, [e])
                 | Inr d \<Rightarrow>
                     (case plotCreate libs sb d of
                        Some e \<Rightarrow> (None, [e])
                      | None \<Rightarrow>
                          (case plotConfigure libs sb nd of
                             Some e \<Rightarrow>
                               (Some \<lparr> plotDomain = d, plotSingle = sb, plotConfigured = False \<rparr>, [e])
                           | None \<Rightarrow>
                               (Some \<lparr> plotDomain = d, plotSingle = sb, plotConfigured = True \<rparr>,
                                []))))))"

text \<open>The constructor. A \<^verbatim>\<open>throw\<close> leaves no provider: the result is \<open>Inl\<close>. The image
  count is the number of images of a TIFF file, an array length that
  \<^verbatim>\<open>new Array(this._imageCount)\<close> accepts; the credit and the texture defaults play no part
  in a request and are left out.\<close>

definition constructor :: "libraries \<Rightarrow> options \<Rightarrow> error + provider" where
  "constructor libs opts =
     (let img = opt_image opts;
          nSamples = getSamplesPerPixel img;
          ro0 = (case opt_renderOptions opts of None \<Rightarrow> emptyRenderOptions | Some ro \<Rightarrow> ro);
          nd = (case nodata ro0 of Some v \<Rightarrow> Some v | None \<Rightarrow> getGDALNoData img)
      in if nSamples < 3 \<and> truthyBool (convertToRGB ro0)
         then Inl (DeveloperError
                ''Can not render the image as RGB, please check the convertToRGB parameter'')
         else
           (let ro = defaultBand (defaultMode nSamples ro0) in
            case resolveRectangle libs (opt_projFunc opts) img of
              Inl e \<Rightarrow> Inl e
            | Inr rect \<Rightarrow>
                (let maxCogLevel = int (length (opt_cogLevels opts)) - 1;
                     wanted = (case opt_maximumLevel opts of None \<Rightarrow> 18 | Some m \<Rightarrow> m);
                     built = initPlot libs ro (opt_bands opts) nd
                 in Inr \<lparr> ready = True,
                          hasAlphaChannel =
                            (case opt_hasAlphaChannel opts of None \<Rightarrow> True | Some v \<Rightarrow> v),
                          maximumLevel = (if wanted > maxCogLevel then maxCogLevel else wanted),
                          minimumLevel = (case opt_minimumLevel opts of None \<Rightarrow> 0 | Some m \<Rightarrow> m),
                          this_error = snd built,
                          this_workerFarm = workerStarted libs,
                          this_cacheTime = (case opt_cache opts of None \<Rightarrow> 60 * 1000 | Some c \<Rightarrow> c),
                          this_source = opt_source opts,
                          this_imageCount = opt_imageCount opts,
                          tileSize = orElse512 (opt_tileSize opts) (getTileWidth img),
                          tileWidth = orElse512 (opt_tileSize opts) (getTileWidth img),
                          tileHeight = orElse512 (opt_tileSize opts) (getTileHeight img),
                          cogLevels = opt_cogLevels opts,
                          renderOptions = ro,
                          noData = nd,
                          readSamples = opt_readSamples opts,
                          bands = opt_bands opts,
                          rectangle = normalizeEast rect,
                          this_images = Some Map.empty,
                          this_imagesCache = Some Map.empty,
                          plot = fst built,
                          this_destroyed = False,
                          enablePickFeatures = (opt_enablePickFeatures opts = Some True),
                          resampleMethod = opt_resampleMethod opts \<rparr>)))"

text \<open>\<^verbatim>\<open>destroy()\<close>\<close>

definition destroy :: "provider \<Rightarrow> provider" where
  "destroy p = p\<lparr> this_images := None, this_imagesCache := None, this_destroyed := True \<rparr>"

section \<open>The tile fetch pipeline\<close>

definition tileKey :: "int \<Rightarrow> int \<Rightarrow> int \<Rightarrow> string" where
  "tileKey x y z = showInt x @ ''_'' @ showInt y @ ''_'' @ showInt z"

text \<open>\<^verbatim>\<open>getNumberOfXTilesAtLevel(level)\<close> of the geographic tiling scheme with one root tile
  is \<^verbatim>\<open>1 << level\<close>: the shift count is taken modulo 32 and the result is a signed 32-bit
  integer.\<close>

definition tilesAtLevel :: "int \<Rightarrow> int" where
  "tilesAtLevel level = (let k = level mod 32 in if k = 31 then - (2 ^ 31) else 2 ^ nat k)"

text \<open>\<^verbatim>\<open>Math.round\<close> rounds halves up. The pixel bounds of a tile are modelled in the reals:
  the division is by a power of two and the products stay below \<open>2^53\<close> for the image
  sizes and tile numbers of a pyramid.\<close>

definition jsRound :: "real \<Rightarrow> int" where
  "jsRound v = \<lfloor>v + 1 / 2\<rfloor>"

record tile =
  tileData :: raster
  tileW :: int
  tileH :: int

record taskOptions =
  taskWidth :: int
  taskHeight :: int
  taskRenderOptions :: multiBand
  taskBands :: bandTable
  taskNoData :: "real option"
  taskResampleMethod :: "string option"

text \<open>The collaborators of a request, and what happens while it awaits them:
  \<^item> \<open>decode\<close>: the windowed reads of the decode library;
  \<^item> \<open>scheduleTask\<close>: the worker farm that composes bands into an image;
  \<^item> \<open>plotRender\<close>: the plot engine with the datasets registered as \<^verbatim>\<open>b1\<close>, \<^verbatim>\<open>b2\<close>, ...,
    rendering the named dataset (or the expression, for \<open>None\<close>) and turned into an image;
  \<^item> \<open>destroyedWhileLoading\<close>: whether \<^verbatim>\<open>destroy()\<close> was called during the tile's read;
  \<^item> \<open>now\<close>: \<^verbatim>\<open>new Date().getTime()\<close> at the cache write.\<close>

record world =
  decode :: decoder
  scheduleTask :: "raster \<Rightarrow> taskOptions \<Rightarrow> error + imagery"
  plotRender :: "plotState \<Rightarrow> (string \<times> real option list option) list \<Rightarrow> string option
                   \<Rightarrow> error + imagery"
  destroyedWhileLoading :: bool
  now :: int

text \<open>\<^verbatim>\<open>let image = this._images[index]; if (!image) image = this._images[index] =
  await this._source.getImage(index)\<close>, as both \<^verbatim>\<open>_loadTile\<close> and \<^verbatim>\<open>pickFeatures\<close> have it.\<close>

definition imageAt :: "provider \<Rightarrow> int option \<Rightarrow> (error + image) \<times> provider" where
  "imageAt p index =
     (case this_images p of
        None \<Rightarrow> (Inl (TypeError ''Cannot read properties of undefined''), p)
      | Some held \<Rightarrow>
          (case held index of
             Some img \<Rightarrow> (Inr img, p)
           | None \<Rightarrow>
               (case this_source p index of
                  Inl e \<Rightarrow> (Inl e, p)
                | Inr img \<Rightarrow> (Inr img, p\<lparr> this_images := Some (held(index \<mapsto> img)) \<rparr>))))"

text \<open>One windowed read, by \<^verbatim>\<open>readRGB\<close> when \<^verbatim>\<open>convertToRGB\<close> is set and by
  \<^verbatim>\<open>readRasters\<close> otherwise, with the record of the call.\<close>

definition readWindow ::
  "decoder \<Rightarrow> provider \<Rightarrow> image \<Rightarrow> readOptions \<Rightarrow> (error + raster) \<times> decodeCall" where
  "readWindow dec p img ropts =
     (if truthyBool (convertToRGB (renderOptions p))
      then (readRGB dec img ropts, ReadRGB img ropts)
      else (readRasters dec img ropts, ReadRasters img ropts))"

text \<open>\<^verbatim>\<open>_loadTile\<close>. The read sits in a \<^verbatim>\<open>try\<close> whose \<^verbatim>\<open>catch\<close> raises the error event and
  throws the error again; fetching the image does not.\<close>

definition loadTile ::
  "world \<Rightarrow> provider \<Rightarrow> int \<Rightarrow> int \<Rightarrow> int \<Rightarrow> (error + tile) \<times> provider \<times> decodeCall list" where
  "loadTile w p x y z =
     (case imageAt p (levelAt (cogLevels p) z) of
        (Inl e, p1) \<Rightarrow> (Inl e, p1, [])
      | (Inr img, p1) \<Rightarrow>
          (let tileXNum = tilesAtLevel z;
               tileYNum = tilesAtLevel z;
               xWidth = real_of_int (getWidth img) / real_of_int tileXNum;
               yWidth = real_of_int (getHeight img) / real_of_int tileYNum;
               pixelBounds = (jsRound (real_of_int x * xWidth), jsRound (real_of_int y * yWidth),
                              jsRound (real_of_int (x + 1) * xWidth),
                              jsRound (real_of_int (y + 1) * yWidth));
               ropts = \<lparr> window = Some pixelBounds, width = Some (tileWidth p1),
                         height = Some (tileHeight p1), samples = Some (readSamples p1),
                         resample = resampleMethod p1 \<rparr>
           in case readWindow (decode w) p1 img ropts of
                (Inl e, call) \<Rightarrow> (Inl e, p1\<lparr> this_error := this_error p1 @ [e] \<rparr>, [call])
              | (Inr res, call) \<Rightarrow>
                  (Inr \<lparr> tileData = res, tileW = tileWidth p1, tileH = tileHeight p1 \<rparr>, p1,
                   [call])))"

text \<open>The channels handed to the worker farm when \<open>multi\<close> is absent.\<close>

definition defaultChannels :: multiBand where
  "defaultChannels =
     [(KeyR, Some \<lparr> chBand = 1, chMin = Some 0, chMax = Some 255 \<rparr>),
      (KeyG, Some \<lparr> chBand = 2, chMin = Some 0, chMax = Some 255 \<rparr>),
      (KeyB, Some \<lparr> chBand = 3, chMin = Some 0, chMax = Some 255 \<rparr>)]"

definition nthOpt :: "'a list \<Rightarrow> nat \<Rightarrow> 'a option" where
  "nthOpt xs i = (if i < length xs then Some (xs ! i) else None)"

text \<open>The composite step: the worker farm for \<open>multi\<close> and \<open>convertToRGB\<close>, the plot object
  for \<open>single\<close>; \<^verbatim>\<open>result\<close> stays \<^verbatim>\<open>undefined\<close> when neither branch applies.\<close>

definition composite :: "world \<Rightarrow> provider \<Rightarrow> tile \<Rightarrow> error + imagery option" where
  "composite w p t =
     (let ro = renderOptions p in
      if multi ro \<noteq> None \<or> truthyBool (convertToRGB ro)
      then (if \<not> this_workerFarm p
            then Inl (DeveloperError ''web workers bootstrap error'')
            else (case scheduleTask w (tileData t)
                         \<lparr> taskWidth = tileW t, taskHeight = tileH t,
                           taskRenderOptions =
                             (case multi ro of Some m \<Rightarrow> m | None \<Rightarrow> defaultChannels),
                           taskBands = bands p, taskNoData = noData p,
                           taskResampleMethod = resampleMethod p \<rparr> of
                    Inl e \<Rightarrow> Inl e
                  | Inr res \<Rightarrow> Inr (Some res)))
      else (case (singleOf (single ro), plot p) of
              (Some sb, Some pl) \<Rightarrow>
                (let datasets =
                       map (\<lambda>(sample, index). (''b'' @ showInt (sample + 1), nthOpt (tileData t) index))
                         (zip (readSamples p) [0..<length (readSamples p)]);
                     shown = (if truthyString (expression sb) then None
                              else Some (''b'' @ showInt (case band sb of None \<Rightarrow> 1 | Some b \<Rightarrow> b)))
                 in case plotRender w pl datasets shown of
                      Inl e \<Rightarrow> Inl e
                    | Inr res \<Rightarrow> Inr (Some res))
            | _ \<Rightarrow> Inr None))"

text \<open>The sweep after a cache write: every entry older than the cache time is deleted.\<close>

definition sweep :: "int \<Rightarrow> int \<Rightarrow> (string \<rightharpoonup> cacheEntry) \<Rightarrow> (string \<rightharpoonup> cacheEntry)" where
  "sweep t ttl cache =
     (\<lambda>key. case cache key of
               None \<Rightarrow> None
             | Some entry \<Rightarrow> if t - time entry > ttl then None else Some entry)"

definition cacheWrite :: "int \<Rightarrow> provider \<Rightarrow> string \<Rightarrow> imagery \<Rightarrow> error + provider" where
  "cacheWrite t p key res =
     (case this_imagesCache p of
        None \<Rightarrow> Inl (TypeError ''Cannot set properties of undefined'')
      | Some cache \<Rightarrow>
          Inr (p\<lparr> this_imagesCache :=
                    Some (sweep t (this_cacheTime p) (cache(key \<mapsto> \<lparr> time = t, data = res \<rparr>))) \<rparr>))"

text \<open>\<^verbatim>\<open>this._cacheTime && this._imagesCache[key]\<close>: the cache is not touched when the cache
  time is 0.\<close>

definition cacheLookup :: "provider \<Rightarrow> string \<Rightarrow> error + cacheEntry option" where
  "cacheLookup p key =
     (if this_cacheTime p = 0 then Inr None
      else (case this_imagesCache p of
              None \<Rightarrow> Inl (TypeError ''Cannot read properties of undefined'')
            | Some cache \<Rightarrow> Inr (cache key)))"

text \<open>The body of the \<^verbatim>\<open>try\<close> of \<^verbatim>\<open>requestImage\<close>.\<close>

definition renderTile ::
  "world \<Rightarrow> provider \<Rightarrow> int \<Rightarrow> int \<Rightarrow> int
     \<Rightarrow> (error + imagery option) \<times> provider \<times> decodeCall list" where
  "renderTile w p x y z =
     (case loadTile w p x y z of
        (Inl e, p1, calls) \<Rightarrow> (Inl e, p1, calls)
      | (Inr t, p1, calls) \<Rightarrow>
          (let p2 = (if destroyedWhileLoading w then destroy p1 else p1) in
           if this_destroyed p2 then (Inr None, p2, calls)
           else (case composite w p2 t of
                   Inl e \<Rightarrow> (Inl e, p2, calls)
                 | Inr None \<Rightarrow> (Inr None, p2, calls)
                 | Inr (Some res) \<Rightarrow>
                     if this_cacheTime p2 \<noteq> 0
                     then (case cacheWrite (now w) p2 (tileKey x y z) res of
                             Inl e \<Rightarrow> (Inl e, p2, calls)
                           | Inr p3 \<Rightarrow> (Inr (Some res), p3, calls))
                     else (Inr (Some res), p2, calls))))"

text \<open>\<^verbatim>\<open>requestImage\<close>: the result (\<open>Inr None\<close> is \<^verbatim>\<open>undefined\<close>), the provider afterwards and
  the windowed reads the request issued. The \<^verbatim>\<open>catch\<close> raises the error event and throws
  the error again.\<close>

definition requestImage ::
  "world \<Rightarrow> provider \<Rightarrow> int \<Rightarrow> int \<Rightarrow> int
     \<Rightarrow> (error + imagery option) \<times> provider \<times> decodeCall list" where
  "requestImage w p x y z =
     (if \<not> ready p
      then (Inl (DeveloperError
                  ''requestImage must not be called before the imagery provider is ready.''),
            p, [])
      else if z < minimumLevel p \<or> z > maximumLevel p then (Inr None, p, [])
      else (case cacheLookup p (tileKey x y z) of
              Inl e \<Rightarrow> (Inl e, p, [])
            | Inr (Some entry) \<Rightarrow> (Inr (Some (data entry)), p, [])
            | Inr None \<Rightarrow>
                (case renderTile w p x y z of
                   (Inl e, p1, calls) \<Rightarrow> (Inl e, p1\<lparr> this_error := this_error p1 @ [e] \<rparr>, calls)
                 | (Inr res, p1, calls) \<Rightarrow> (Inr res, p1, calls))))"

section \<open>The feature probe\<close>

text \<open>The feature info returned by \<^verbatim>\<open>pickFeatures\<close>: the position its name is printed
  from (in degrees, with six decimals; the text is not modelled), and the first sample of
  every band read (\<open>None\<close> when the band's array is empty).\<close>

record featureInfo =
  atLongitude :: real
  atLatitude :: real
  properties :: "real option option list"

subsection \<open>Double arithmetic\<close>

text \<open>The probe truncates the result of its arithmetic to a pixel index, so the rounding of
  every operation counts: here a JavaScript number is a finite double (the real it
  denotes), an infinity or \<^verbatim>\<open>NaN\<close>. The two zeros are one value; the sign of a zero shows
  only in a division by it, and the probe takes the absolute value of its quotients at
  once.\<close>

datatype number = NaN | PosInfinity | NegInfinity | Finite real

definition pow2 :: "int \<Rightarrow> real" where
  "pow2 k = (if k \<ge> 0 then 2 ^ nat k else 1 / 2 ^ nat (- k))"

text \<open>The exponent of the binade a real lies in: the greatest \<open>e\<close> of the normal range with
  \<open>2^e \<le> |x|\<close>, and the least normal exponent for the smaller \<open>x\<close>.\<close>

definition binade :: "real \<Rightarrow> int" where
  "binade x =
     (if \<bar>x\<bar> < pow2 (- 1022) then - 1022
      else Max {e \<in> {- 1022 .. 1023}. pow2 e \<le> \<bar>x\<bar>})"

definition roundHalfEven :: "real \<Rightarrow> int" where
  "roundHalfEven q =
     (let f = \<lfloor>q\<rfloor> in
      if q - real_of_int f < 1 / 2 then f
      else if q - real_of_int f > 1 / 2 then f + 1
      else if even f then f else f + 1)"

definition overflowBound :: real where
  "overflowBound = 2 ^ 1024"

text \<open>The double nearest to a real, ties to the even significand: a multiple of the unit in
  the last of 53 places of its binade, or an infinity from \<open>2^1024\<close> on.\<close>

definition toDouble :: "real \<Rightarrow> number" where
  "toDouble x =
     (let ulp = pow2 (binade x - 52);
          r = real_of_int (roundHalfEven (x / ulp)) * ulp
      in if r \<ge> overflowBound then PosInfinity
         else if r \<le> - overflowBound then NegInfinity
         else Finite r)"

text \<open>\<^verbatim>\<open>a + b\<close>, \<^verbatim>\<open>-a\<close>, \<^verbatim>\<open>a - b\<close>, \<^verbatim>\<open>Math.abs(a)\<close>, \<^verbatim>\<open>Math.abs(a / b)\<close> and \<^verbatim>\<open>a * b\<close> on
  numbers.\<close>

fun jsAdd :: "number \<Rightarrow> number \<Rightarrow> number" where
  "jsAdd (Finite a) (Finite b) = toDouble (a + b)"
| "jsAdd NaN b = NaN"
| "jsAdd a NaN = NaN"
| "jsAdd PosInfinity NegInfinity = NaN"
| "jsAdd NegInfinity PosInfinity = NaN"
| "jsAdd PosInfinity b = PosInfinity"
| "jsAdd a PosInfinity = PosInfinity"
| "jsAdd NegInfinity b = NegInfinity"
| "jsAdd a NegInfinity = NegInfinity"

fun jsNegate :: "number \<Rightarrow> number" where
  "jsNegate (Finite a) = Finite (- a)"
| "jsNegate PosInfinity = NegInfinity"
| "jsNegate NegInfinity = PosInfinity"
| "jsNegate NaN = NaN"

definition jsSub :: "number \<Rightarrow> number \<Rightarrow> number" where
  "jsSub a b = jsAdd a (jsNegate b)"

fun jsAbs :: "number \<Rightarrow> number" where
  "jsAbs (Finite a) = Finite \<bar>a\<bar>"
| "jsAbs NegInfinity = PosInfinity"
| "jsAbs PosInfinity = PosInfinity"
| "jsAbs NaN = NaN"

fun jsAbsDiv :: "number \<Rightarrow> number \<Rightarrow> number" where
  "jsAbsDiv (Finite a) (Finite b) =
     (if b = 0 then (if a = 0 then NaN else PosInfinity) else jsAbs (toDouble (a / b)))"
| "jsAbsDiv NaN b = NaN"
| "jsAbsDiv a NaN = NaN"
| "jsAbsDiv (Finite a) b = Finite 0"
| "jsAbsDiv a (Finite b) = PosInfinity"
| "jsAbsDiv a b = NaN"

fun jsMul :: "number \<Rightarrow> number \<Rightarrow> number" where
  "jsMul (Finite a) (Finite b) = toDouble (a * b)"
| "jsMul NaN b = NaN"
| "jsMul a NaN = NaN"
| "jsMul (Finite a) PosInfinity =
     (if a = 0 then NaN else if a > 0 then PosInfinity else NegInfinity)"
| "jsMul (Finite a) NegInfinity =
     (if a = 0 then NaN else if a > 0 then NegInfinity else PosInfinity)"
| "jsMul PosInfinity (Finite b) =
     (if b = 0 then NaN else if b > 0 then PosInfinity else NegInfinity)"
| "jsMul NegInfinity (Finite b) =
     (if b = 0 then NaN else if b > 0 then NegInfinity else PosInfinity)"
| "jsMul PosInfinity PosInfinity = PosInfinity"
| "jsMul NegInfinity NegInfinity = PosInfinity"
| "jsMul PosInfinity NegInfinity = NegInfinity"
| "jsMul NegInfinity PosInfinity = NegInfinity"

text \<open>\<^verbatim>\<open>~~v\<close>: 0 for \<^verbatim>\<open>NaN\<close> and the infinities; a finite number is truncated towards zero
  and wrapped to a signed 32-bit integer.\<close>

definition toInt32 :: "number \<Rightarrow> int" where
  "toInt32 v =
     (case v of
        Finite a \<Rightarrow>
          (let t = (if a < 0 then \<lceil>a\<rceil> else \<lfloor>a\<rfloor>); m = t mod 4294967296
           in if m \<ge> 2147483648 then m - 4294967296 else m)
      | _ \<Rightarrow> 0)"

text \<open>\<^verbatim>\<open>CesiumMath.TWO_PI\<close>, the double \<^verbatim>\<open>2 * Math.PI\<close>.\<close>

definition TWO_PI_double :: real where
  "TWO_PI_double = 884279719003555 / 2 ^ 47"

subsection \<open>The probed pixel\<close>

text \<open>The getter \<^verbatim>\<open>width\<close> of the Cesium rectangle: east minus west, with a full turn added
  to an east below west.\<close>

definition rectangleWidth :: "rectangle \<Rightarrow> number" where
  "rectangleWidth rect =
     (if east rect < west rect
      then jsSub (jsAdd (Finite (east rect)) (Finite TWO_PI_double)) (Finite (west rect))
      else jsSub (Finite (east rect)) (Finite (west rect)))"

text \<open>The pixel under a geographic point: the fraction of the rectangle's width that lies
  between its west and the point's longitude (a full turn is added to the gap of a
  longitude below west), and the fraction of its height between its north and the point's
  latitude, each scaled by the image size and truncated by \<^verbatim>\<open>~~\<close>.\<close>

definition probePixel :: "rectangle \<Rightarrow> image \<Rightarrow> real \<Rightarrow> real \<Rightarrow> int \<times> int" where
  "probePixel rect img longitude latitude =
     (let lonWidth = rectangleWidth rect;
          lonGap = (if longitude < west rect
                    then jsAdd (jsSub (Finite longitude) (Finite (west rect)))
                           (Finite TWO_PI_double)
                    else jsSub (Finite longitude) (Finite (west rect)));
          posX = toInt32 (jsMul (jsAbsDiv lonGap lonWidth)
                            (Finite (real_of_int (getWidth img))));
          posY = toInt32 (jsMul (jsAbsDiv (jsSub (Finite (north rect)) (Finite latitude))
                                   (jsSub (Finite (north rect)) (Finite (south rect))))
                            (Finite (real_of_int (getHeight img))))
      in (posX, posY))"

text \<open>The options of the probe's read: a window of one pixel, read into one pixel.\<close>

definition probeRead :: "int \<times> int \<Rightarrow> readOptions" where
  "probeRead pos =
     (case pos of (posX, posY) \<Rightarrow>
        \<lparr> window = Some (posX, posY, posX + 1, posY + 1), width = Some 1, height = Some 1,
          samples = None, resample = None \<rparr>)"

text \<open>\<^verbatim>\<open>pickFeatures\<close>. Neither the fetch of the image nor the read sits in a \<^verbatim>\<open>try\<close>: an
  error goes to the caller and the error event is not raised.\<close>

definition pickFeatures ::
  "world \<Rightarrow> provider \<Rightarrow> int \<Rightarrow> int \<Rightarrow> int \<Rightarrow> real \<Rightarrow> real
     \<Rightarrow> (error + featureInfo list option) \<times> provider \<times> decodeCall list" where
  "pickFeatures w p x y zoom longitude latitude =
     (if \<not> enablePickFeatures p then (Inr None, p, [])
      else
        (let z = (if zoom > maximumLevel p then maximumLevel p else zoom) in
         case imageAt p (levelAt (cogLevels p) z) of
           (Inl e, p1) \<Rightarrow> (Inl e, p1, [])
         | (Inr img, p1) \<Rightarrow>
             (let ropts = probeRead (probePixel (rectangle p1) img longitude latitude)
              in case readWindow (decode w) p1 img ropts of
                   (Inl e, call) \<Rightarrow> (Inl e, p1, [call])
                 | (Inr res, call) \<Rightarrow>
                     (Inr (Some [\<lparr> atLongitude = longitude, atLatitude = latitude,
                                    properties = map (\<lambda>item. nthOpt item 0) res \<rparr>]),
                      p1, [call]))))"

section \<open>The factory\<close>

text \<open>\<^verbatim>\<open>fromGeoTIFF\<close>: everything from the first image to the constructor, and the
  \<^verbatim>\<open>catch\<close> that wraps any error in a new \<^verbatim>\<open>Error\<close>. The image count is what
  \<^verbatim>\<open>source.getImageCount()\<close> resolved to.\<close>

definition createProvider ::
  "libraries \<Rightarrow> statistics \<Rightarrow> decoder \<Rightarrow> geotiff \<Rightarrow> nat \<Rightarrow> renderOptions
     \<Rightarrow> (error + provider) \<times> decodeCall list" where
  "createProvider libs st dec source imageCount ro =
     (case source None of
        Inl e \<Rightarrow> (Inl e, [])
      | Inr img \<Rightarrow>
          (case getCogLevels source imageCount (orElse512 None (getTileWidth img)) of
             Inl e \<Rightarrow> (Inl e, [])
           | Inr levels \<Rightarrow>
               (case getReadSamples (findAndSortBandNumbers st) ro of
                  Inl e \<Rightarrow> (Inl e, [])
                | Inr rs \<Rightarrow>
                    (case getBandValues st dec ro rs source img levels of
                       (Inl e, calls) \<Rightarrow> (Inl e, calls)
                     | (Inr bt, calls) \<Rightarrow>
                         (constructor libs
                            \<lparr> opt_source = source, opt_image = img, opt_imageCount = imageCount,
                              opt_cogLevels = levels, opt_readSamples = rs, opt_bands = bt,
                              opt_tileSize = None, opt_maximumLevel = None,
                              opt_minimumLevel = None, opt_enablePickFeatures = None,
                              opt_hasAlphaChannel = None, opt_renderOptions = Some ro,
                              opt_projFunc = None, opt_cache = None,
                              opt_resampleMethod = None \<rparr>,
                          calls)))))"

definition fromGeoTIFF ::
  "libraries \<Rightarrow> statistics \<Rightarrow> decoder \<Rightarrow> geotiff \<Rightarrow> nat \<Rightarrow> renderOptions
     \<Rightarrow> (error + provider) \<times> decodeCall list" where
  "fromGeoTIFF libs st dec source imageCount ro =
     (case createProvider libs st dec source imageCount ro of
        (Inl e, calls) \<Rightarrow>
          (Inl (Error (''Error creating ImageryProvider from GeoTIFF: '' @ message e)), calls)
      | (Inr p, calls) \<Rightarrow> (Inr p, calls))"

section \<open>Concrete sources, options and collaborators\<close>

text \<open>A three-band pyramid in EPSG:4326 over the box from (0, 0) to (10, 10) degrees: the
  full-resolution image 0 of 1024 x 1024 pixels and its 512 x 512 overview 1.\<close>

definition rgbImage :: "int \<Rightarrow> image" where
  "rgbImage n = (squareImage n)\<lparr> getSamplesPerPixel := 3 \<rparr>"

definition rgbSource :: geotiff where
  "rgbSource index =
     (case index of
        None \<Rightarrow> Inr (rgbImage 1024)
      | Some i \<Rightarrow>
          if i = 0 then Inr (rgbImage 1024)
          else if i = 1 then Inr (rgbImage 512)
          else Inl (RangeError ''Invalid image index''))"

definition exampleLibraries :: libraries where
  "exampleLibraries =
     \<lparr> autoProjection = (\<lambda>keys. None), plotCreate = (\<lambda>sb d. None),
       plotConfigure = (\<lambda>sb nd. None), workerStarted = True \<rparr>"

definition byteRange :: bandRange where
  "byteRange = \<lparr> rangeMin = 0, rangeMax = 255 \<rparr>"

definition rgbRenderOptions :: renderOptions where
  "rgbRenderOptions = emptyRenderOptions\<lparr> convertToRGB := Holds True \<rparr>"

text \<open>The options of a provider on that pyramid with the cache time \<open>ttl\<close>.\<close>

definition rgbOptions :: "int \<Rightarrow> options" where
  "rgbOptions ttl =
     \<lparr> opt_source = rgbSource, opt_image = rgbImage 1024, opt_imageCount = 2,
       opt_cogLevels = [1, 0], opt_readSamples = [0, 1, 2],
       opt_bands = [1 \<mapsto> byteRange, 2 \<mapsto> byteRange, 3 \<mapsto> byteRange],
       opt_tileSize = None, opt_maximumLevel = None, opt_minimumLevel = None,
       opt_enablePickFeatures = Some True, opt_hasAlphaChannel = None,
       opt_renderOptions = Some rgbRenderOptions, opt_projFunc = None, opt_cache = Some ttl,
       opt_resampleMethod = None \<rparr>"

definition rgbProvider :: "int \<Rightarrow> provider" where
  "rgbProvider ttl =
     \<lparr> ready = True, hasAlphaChannel = True, maximumLevel = 1, minimumLevel = 0,
       this_error = [], this_workerFarm = True, this_cacheTime = ttl,
       this_source = rgbSource, this_imageCount = 2, tileSize = 512, tileWidth = 512,
       tileHeight = 512, cogLevels = [1, 0], renderOptions = rgbRenderOptions,
       noData = None, readSamples = [0, 1, 2],
       bands = [1 \<mapsto> byteRange, 2 \<mapsto> byteRange, 3 \<mapsto> byteRange],
       rectangle = fromDegrees 0 0 10 10,
       this_images = Some Map.empty, this_imagesCache = Some Map.empty, plot = None,
       this_destroyed = False, enablePickFeatures = True, resampleMethod = None \<rparr>"

text \<open>A decode library whose every read succeeds with one sample per band, and one whose
  every read is rejected.\<close>

definition goodDecoder :: decoder where
  "goodDecoder =
     \<lparr> readRGB = (\<lambda>img ropts. Inr [[Some 10], [Some 20], [Some 30]]),
       readRasters = (\<lambda>img ropts. Inr [[Some 10], [Some 20], [Some 30]]) \<rparr>"

definition failingDecoder :: decoder where
  "failingDecoder =
     \<lparr> readRGB = (\<lambda>img ropts. Inl (Rejected ''read failed'')),
       readRasters = (\<lambda>img ropts. Inl (Rejected ''read failed'')) \<rparr>"

text \<open>A world at clock time \<open>t\<close> in which compositing succeeds; the image it produces is
  numbered by the time, so that an image rendered later differs from one rendered
  earlier.\<close>

definition worldAt :: "decoder \<Rightarrow> int \<Rightarrow> world" where
  "worldAt dec t =
     \<lparr> decode = dec, scheduleTask = (\<lambda>res topts. Inr (Imagery (nat t))),
       plotRender = (\<lambda>pl datasets shown. Inr (Imagery (nat t))),
       destroyedWhileLoading = False, now = t \<rparr>"



text \<open>The three-band provider options over another bounding box, with a projection
  function that answers every code with \<open>pr\<close>.\<close>

definition projectedOptions :: "projection \<Rightarrow> real \<times> real \<times> real \<times> real \<Rightarrow> options" where
  "projectedOptions pr bbox =
     (rgbOptions 1000)\<lparr> opt_image := (rgbImage 1024)\<lparr> getBoundingBox := bbox \<rparr>,
                        opt_projFunc := Some (\<lambda>code. Some pr) \<rparr>"

text \<open>A single-band provider asked to render band 5 of a one-band image for which no
  range of band 5 was resolved.\<close>

definition grayRenderOptions :: "int \<Rightarrow> renderOptions" where
  "grayRenderOptions b =
     emptyRenderOptions\<lparr> single := Holds \<lparr> band = Some b, colorScale = None, colors = None,
                                           domain = None, expression = None \<rparr> \<rparr>"

definition grayOptions :: "int \<Rightarrow> options" where
  "grayOptions b =
     (rgbOptions 1000)\<lparr> opt_image := squareImage 1024, opt_readSamples := [0],
                        opt_bands := [1 \<mapsto> byteRange],
                        opt_renderOptions := Some (grayRenderOptions b) \<rparr>"

text \<open>The guard of the constructor against RGB conversion of fewer than three bands.\<close>

definition rgbGuard :: "options \<Rightarrow> bool" where
  "rgbGuard opts \<longleftrightarrow>
     getSamplesPerPixel (opt_image opts) < 3
     \<and> (case opt_renderOptions opts of None \<Rightarrow> False | Some ro \<Rightarrow> truthyBool (convertToRGB ro))"

text \<open>The error the constructor throws when RGB conversion is asked of fewer than three
  bands.\<close>

definition rgbError :: error where
  "rgbError =
     DeveloperError ''Can not render the image as RGB, please check the convertToRGB parameter''"

text \<open>No render mode configured: the options are absent, or have none of the keys
  \<open>single\<close>, \<open>multi\<close> and \<open>convertToRGB\<close> (for \<open>multi\<close>, a key holding \<^verbatim>\<open>undefined\<close> is as
  good as none).\<close>

definition noModeConfigured :: "options \<Rightarrow> bool" where
  "noModeConfigured opts \<longleftrightarrow>
     (case opt_renderOptions opts of
        None \<Rightarrow> True
      | Some ro \<Rightarrow> single ro = Absent \<and> multi ro = None \<and> convertToRGB ro = Absent)"

text \<open>A two-band image, and provider options on it that configure no render mode.\<close>

definition twoBandImage :: image where
  "twoBandImage = (squareImage 1024)\<lparr> getSamplesPerPixel := 2 \<rparr>"

definition twoBandOptions :: options where
  "twoBandOptions =
     (rgbOptions 1000)\<lparr> opt_image := twoBandImage, opt_readSamples := [0],
                        opt_bands := [1 \<mapsto> byteRange],
                        opt_renderOptions := Some emptyRenderOptions \<rparr>"

text \<open>Stand-ins for the module \<^verbatim>\<open>utils\<close> and for the unary plus, good for texts of decimal
  digits and for non-empty sample lists.\<close>

definition decimalNumber :: "string \<Rightarrow> real" where
  "decimalNumber s = real (foldl (\<lambda>acc c. 10 * acc + (of_char c - 48)) 0 s)"

definition exampleStatistics :: statistics where
  "exampleStatistics =
     \<lparr> toNumber = decimalNumber,
       getMinMax = (\<lambda>xs nd. \<lparr> rangeMin = fold min xs (hd xs), rangeMax = fold max xs (hd xs) \<rparr>),
       findAndSortBandNumbers = (\<lambda>ex. [0]) \<rparr>"

text \<open>A one-band image whose band 0 embeds the statistics 3 and 97, and single-band
  render options for band 1 that also give a domain.\<close>

definition statsElement :: "string \<rightharpoonup> string" where
  "statsElement = [''STATISTICS_MINIMUM'' \<mapsto> ''3'', ''STATISTICS_MAXIMUM'' \<mapsto> ''97'']"

definition statsImage :: image where
  "statsImage =
     (squareImage 1024)\<lparr> getGDALMetadata := (\<lambda>i. if i = 0 then Some statsElement else None) \<rparr>"

definition domainRenderOptions :: renderOptions where
  "domainRenderOptions =
     emptyRenderOptions\<lparr> single := Holds \<lparr> band = Some 1, colorScale = None, colors = None,
                                           domain = Some (0, 1), expression = None \<rparr> \<rparr>"

text \<open>A provider after it has fetched and kept an image as image 0.\<close>

definition holdingImage0 :: "provider \<Rightarrow> image \<Rightarrow> provider" where
  "holdingImage0 p img = p\<lparr> this_images := Some [Some 0 \<mapsto> img] \<rparr>"

text \<open>The three-band provider over a rectangle that crosses the antimeridian: from 3
  radians (about 172 degrees east) to 3.5 radians, its east already raised by a full
  turn; latitudes from 0 to 1 radian.\<close>

definition crossingProvider :: provider where
  "crossingProvider =
     (rgbProvider 1000)\<lparr> rectangle := \<lparr> west = 3, south = 0, east = 7 / 2, north = 1 \<rparr> \<rparr>"

text \<open>A 49-pixel image over the rectangle from 0 to 49/64 radians in both directions.\<close>

definition smallSource :: geotiff where
  "smallSource index = Inr (rgbImage 49)"

definition smallProvider :: provider where
  "smallProvider =
     (rgbProvider 1000)\<lparr> this_source := smallSource,
                          rectangle := \<lparr> west = 0, south = 0, east = 49 / 64, north = 49 / 64 \<rparr> \<rparr>"

text \<open>The three-band provider on a source whose every fetch of an image is rejected.\<close>

definition offlineSource :: geotiff where
  "offlineSource index = Inl (Rejected ''fetch failed'')"

definition offlineProvider :: provider where
  "offlineProvider = (rgbProvider 1000)\<lparr> this_source := offlineSource \<rparr>"

text \<open>The two-band options on an image in the user-defined projected system 32767, which
  the projection library of \<open>exampleLibraries\<close> does not resolve; no projection function
  is given.\<close>

definition unprojectedOptions :: options where
  "unprojectedOptions =
     twoBandOptions\<lparr> opt_image :=
       twoBandImage\<lparr> geoKeys := \<lparr> ProjectedCSTypeGeoKey = Some 32767,
                                     GeographicTypeGeoKey = None \<rparr> \<rparr> \<rparr>"

section \<open>Properties of the level selector\<close>

lemma whileLevels_eq:
  "whileLevels m ls = ls @ rev (map int [0..<nat (m + 1)])"
proof (induction m ls rule: whileLevels.induct)
  case (1 m ls)
  show ?case
  proof (cases "m \<ge> 0")
    case True
    then have n: "nat (m + 1) = Suc (nat m)" by simp
    have "whileLevels m ls = whileLevels (m - 1) (ls @ [m])"
      using True by (subst whileLevels.simps) simp
    also have "\<dots> = (ls @ [m]) @ rev (map int [0..<nat (m - 1 + 1)])"
      using "1" True by simp
    finally show ?thesis using True n by simp
  next
    case False
    then show ?thesis by (subst whileLevels.simps) simp
  qed
qed

lemma pushFill_Inr:
  "pushFill ls c i = Inr ls' \<Longrightarrow> ls' = ls @ replicate (nat c) i"
  by (auto simp: pushFill_def split: if_splits)

text \<open>What the \<^verbatim>\<open>for\<close> loop leaves behind: copies of the last index \<open>n - 1\<close> appended to
  the list, and a \<open>maximumLevel\<close> that is an index the loop visited or still \<open>n - 1\<close>.\<close>

lemma scanLevels_result:
  "scanLevels src n ts k ls = Inr (ls', m) \<Longrightarrow>
     (\<exists>c. ls' = ls @ replicate c (n - 1)) \<and> ((0 \<le> m \<and> m < int k) \<or> m = n - 1)"
proof (induction k arbitrary: ls)
  case 0
  then show ?case by simp
next
  case (Suc k)
  from Suc.prems obtain img where img: "src (Some (int k)) = Inr img"
    by (auto simp: Let_def split: sum.splits)
  let ?sz = "max (getWidth img) (getHeight img)"
  let ?push = "if int k = n - 1
                 then pushFill ls \<lceil>real_of_int (?sz - ts) / real_of_int ts\<rceil> (int k)
                 else Inr ls"
  from Suc.prems img obtain l1 where l1: "?push = Inr l1"
    by (auto simp: Let_def split: sum.splits)
  have ex1: "\<exists>c. l1 = ls @ replicate c (n - 1)"
  proof (cases "int k = n - 1")
    case True
    with l1 have "l1 = ls @ replicate (nat \<lceil>real_of_int (?sz - ts) / real_of_int ts\<rceil>) (n - 1)"
      by (auto dest: pushFill_Inr)
    then show ?thesis by blast
  next
    case False
    with l1 have "l1 = ls @ replicate 0 (n - 1)" by simp
    then show ?thesis by blast
  qed
  show ?case
  proof (cases "real_of_int ?sz > real_of_int ts * 0.5")
    case True
    with Suc.prems img l1 have "ls' = l1" "m = int k"
      by (auto simp: Let_def split: sum.splits if_splits)
    with ex1 show ?thesis by auto
  next
    case False
    with Suc.prems img l1 have "scanLevels src n ts k l1 = Inr (ls', m)"
      by (auto simp: Let_def split: sum.splits if_splits)
    from Suc.IH[OF this] ex1 show ?thesis
      by (auto simp: replicate_add[symmetric] simp del: replicate_add)
  qed
qed

lemma getCogLevels_shape:
  assumes "getCogLevels src n ts = Inr ls"
  shows "\<exists>c m. ls = replicate c (int n - 1) @ rev (map int [0..<nat (m + 1)])
           \<and> m \<le> int n - 1 \<and> (0 \<le> m \<or> n = 0)"
proof -
  from assms obtain l1 m where s: "scanLevels src (int n) ts n [] = Inr (l1, m)"
    and l: "ls = whileLevels m l1"
    by (auto simp: getCogLevels_def split: sum.splits)
  from scanLevels_result[OF s] obtain c where c: "l1 = replicate c (int n - 1)"
    and m: "(0 \<le> m \<and> m < int n) \<or> m = int n - 1" by auto
  from m have "m \<le> int n - 1 \<and> (0 \<le> m \<or> n = 0)" by auto
  with l c show ?thesis unfolding whileLevels_eq by blast
qed

lemma pushFill_total:
  assumes "0 < sz" "sz \<le> 4294967296" "0 < ts"
  shows "\<exists>l. pushFill ls \<lceil>real_of_int (sz - ts) / real_of_int ts\<rceil> i = Inr l"
proof -
  let ?c = "\<lceil>real_of_int (sz - ts) / real_of_int ts\<rceil>"
  have "real_of_int (sz - ts) / real_of_int ts > -1"
    using assms by (simp add: field_simps)
  then have lo: "0 \<le> ?c" by linarith
  have "sz - ts \<le> 4294967295 * ts" using assms by linarith
  then have "real_of_int (sz - ts) \<le> real_of_int (4294967295 * ts)"
    by (simp only: of_int_le_iff)
  then have "real_of_int (sz - ts) / real_of_int ts \<le> 4294967295"
    using assms by (simp add: pos_divide_le_eq)
  then have hi: "?c \<le> 4294967295" by (simp add: ceiling_le_iff)
  from lo hi show ?thesis by (simp add: pushFill_def)
qed

lemma scanLevels_total:
  assumes "wellFormedSource src cnt" "0 < ts"
  shows "k \<le> cnt \<Longrightarrow> \<exists>res. scanLevels src n ts k ls = Inr res"
proof (induction k arbitrary: ls)
  case 0
  then show ?case by simp
next
  case (Suc k)
  then have "k < cnt" by simp
  with assms(1) obtain img where img: "src (Some (int k)) = Inr img"
    and sz: "0 < max (getWidth img) (getHeight img)" "max (getWidth img) (getHeight img) \<le> 4294967296"
    unfolding wellFormedSource_def by blast
  let ?sz = "max (getWidth img) (getHeight img)"
  let ?push = "if int k = n - 1
                 then pushFill ls \<lceil>real_of_int (?sz - ts) / real_of_int ts\<rceil> (int k)
                 else Inr ls"
  obtain l1 where l1: "?push = Inr l1"
    using pushFill_total[OF sz assms(2), of ls "int k"] by (cases "int k = n - 1") auto
  from Suc.IH[of l1] Suc.prems obtain res where "scanLevels src n ts k l1 = Inr res" by auto
  with img l1 show ?case by (cases "int k = n - 1") (auto simp: Let_def)
qed

text \<open>The selector returns a level map for every well-formed source and positive tile
  size.\<close>

lemma getCogLevels_total:
  assumes "wellFormedSource src n" "0 < ts"
  shows "\<exists>ls. getCogLevels src n ts = Inr ls"
proof -
  from scanLevels_total[OF assms, of n "int n" "[]"]
  obtain res where "scanLevels src (int n) ts n [] = Inr res" by auto
  then show ?thesis by (cases res) (simp add: getCogLevels_def)
qed

text \<open>
  Claim C2, as the code has it. The level map of \<^verbatim>\<open>getCogLevels\<close> lists overview indices
  by zoom. For every source with at least one image, whenever the selector returns a map:
  the map is not empty, its last entry (the highest zoom) is the index 0, the overview
  index never increases as the zoom increases (so it never decreases as the zoom
  decreases, and position 0 holds the largest index of the map), and every entry is an
  index below the image count.
\<close>

theorem getCogLevels_descending_in_zoom:
  assumes "getCogLevels src n ts = Inr ls" and "0 < n"
  shows "ls \<noteq> [] \<and> last ls = 0
       \<and> (\<forall>z z'. z \<le> z' \<longrightarrow> z' < length ls \<longrightarrow> ls ! z' \<le> ls ! z)
       \<and> (\<forall>l \<in> set ls. 0 \<le> l \<and> l < int n)"
proof -
  from getCogLevels_shape[OF assms(1)] assms(2)
  obtain c m where L: "ls = replicate c (int n - 1) @ rev (map int [0..<nat (m + 1)])"
    and m: "m \<le> int n - 1" "0 \<le> m" by auto
  from m have n: "nat (m + 1) = Suc (nat m)" by simp
  have ne: "ls \<noteq> []" using L n by simp
  have "[0..<Suc (nat m)] = 0 # [Suc 0..<Suc (nat m)]" by (simp add: upt_conv_Cons)
  then have la: "last ls = 0" using L n by (simp del: upt_Suc)
  have "sorted (rev ls)"
    using L m by (auto simp: sorted_append rev_map sorted_map intro!: sorted_wrt_mono_rel[of _ "(<)"])
  then have mono: "\<forall>z z'. z \<le> z' \<longrightarrow> z' < length ls \<longrightarrow> ls ! z' \<le> ls ! z"
    by (simp add: sorted_rev_iff_nth_mono)
  have rng: "\<forall>l \<in> set ls. 0 \<le> l \<and> l < int n"
    using L m assms(2) by auto
  from ne la mono rng show ?thesis by blast
qed

theorem getCogLevels_descending_in_zoom_witness:
  "getCogLevels twoLevelSource 2 512 = Inr [1, 0] \<and> (0::nat) < 2
   \<and> [1, 0 :: int] \<noteq> [] \<and> last [1, 0 :: int] = 0
   \<and> [1, 0 :: int] ! 1 \<le> [1, 0] ! 0
   \<and> 0 \<le> [1, 0 :: int] ! 0 \<and> [1, 0 :: int] ! 0 < int 2"
proof -
  have res: "getCogLevels twoLevelSource 2 512 = Inr [1, 0]"
    by (simp add: getCogLevels_def twoLevelSource_def squareImage_def pushFill_def
        whileLevels.simps numeral_2_eq_2)
  have pos: "(0::nat) < 2" by simp
  from getCogLevels_descending_in_zoom[OF res pos]
  have ne: "[1, 0 :: int] \<noteq> []" and la: "last [1, 0 :: int] = 0"
    and mono: "\<forall>z z'. z \<le> z' \<longrightarrow> z' < length [1, 0 :: int]
                 \<longrightarrow> [1, 0 :: int] ! z' \<le> [1, 0] ! z"
    and rng: "\<forall>l \<in> set [1, 0 :: int]. 0 \<le> l \<and> l < int 2"
    by blast+
  from mono have m: "[1, 0 :: int] ! 1 \<le> [1, 0] ! 0"
    by (metis One_nat_def length_Cons lessI less_eq_nat.simps(1) list.size(3))
  from rng have r: "0 \<le> [1, 0 :: int] ! 0 \<and> [1, 0 :: int] ! 0 < int 2"
    using nth_mem[of 0 "[1, 0 :: int]"] by fastforce
  from res pos ne la m r show ?thesis by blast
qed

text \<open>
  Claim C2, as stated, at the two-image pyramid (a 1024-pixel image 0 with a 512-pixel
  overview 1, tile size 512): the level map is \<open>[1, 0]\<close>. Its entry for zoom 0 is the
  overview index 1, not 0, and going from zoom 1 down to zoom 0 the index rises from 0
  to 1.
\<close>

theorem getCogLevels_zoom0_counterexample:
  "getCogLevels twoLevelSource 2 512 = Inr [1, 0]
   \<and> [1, 0 :: int] ! 0 \<noteq> 0 \<and> \<not> ([1, 0 :: int] ! 0 \<le> [1, 0] ! 1)"
  by (simp add: getCogLevels_def twoLevelSource_def squareImage_def pushFill_def
        whileLevels.simps numeral_2_eq_2)

section \<open>Properties of the tile fetch pipeline\<close>

lemma tileKey_origin: "tileKey 0 0 0 = ''0_0_0''"
  by (simp add: tileKey_def showInt_def showNat.simps[of 0] digitChar_def)

lemmas example_defs = rgbProvider_def rgbImage_def squareImage_def rgbSource_def
  rgbRenderOptions_def emptyRenderOptions_def worldAt_def goodDecoder_def failingDecoder_def
  byteRange_def

lemmas pipeline_defs = requestImage_def cacheLookup_def renderTile_def loadTile_def imageAt_def
  levelAt_def readWindow_def truthyBool_def composite_def cacheWrite_def sweep_def
  tilesAtLevel_def jsRound_def destroy_def singleOf_def

text \<open>The constructor, run on the options of the three-band pyramid, gives the provider
  the properties below are tried on.\<close>

lemma rgbProvider_constructed:
  "constructor exampleLibraries (rgbOptions ttl) = Inr (rgbProvider ttl)"
  by (simp add: constructor_def rgbOptions_def rgbProvider_def rgbImage_def squareImage_def
      rgbRenderOptions_def emptyRenderOptions_def truthyBool_def defaultMode_def defaultBand_def
      resolveRectangle_def prjCodeOf_def exampleLibraries_def initPlot_def orElse512_def
      normalizeEast_def fromDegrees_def toRadians_def singleOf_def Let_def)

text \<open>
  Claim C6. On a ready provider, a request whose zoom is below \<open>minimumLevel\<close> or above
  \<open>maximumLevel\<close> resolves to \<^verbatim>\<open>undefined\<close> (\<open>Inr None\<close>), not to an error; it issues no
  windowed read and leaves the provider as it was (no error event, no cache write).
\<close>

theorem requestImage_out_of_range:
  assumes "ready p" and "z < minimumLevel p \<or> z > maximumLevel p"
  shows "requestImage w p x y z = (Inr None, p, [])"
  using assms by (simp add: requestImage_def)

theorem requestImage_out_of_range_witness:
  "ready (rgbProvider 1000)
   \<and> (2 < minimumLevel (rgbProvider 1000) \<or> 2 > maximumLevel (rgbProvider 1000))
   \<and> requestImage (worldAt goodDecoder 0) (rgbProvider 1000) 0 0 2
       = (Inr None, rgbProvider 1000, [])"
proof -
  have r: "ready (rgbProvider 1000)" by (simp add: rgbProvider_def)
  have o: "2 < minimumLevel (rgbProvider 1000) \<or> 2 > maximumLevel (rgbProvider 1000)"
    by (simp add: rgbProvider_def)
  from requestImage_out_of_range[OF r o] r o show ?thesis by blast
qed

text \<open>A cache hit: with caching enabled, an entry stored under the key of the tile is
  returned as it is, without any read and without a look at its time stamp or at the
  clock.\<close>

lemma requestImage_cache_hit:
  assumes "ready p" and "minimumLevel p \<le> z" and "z \<le> maximumLevel p"
    and "this_cacheTime p \<noteq> 0" and "this_imagesCache p = Some cache"
    and "cache (tileKey x y z) = Some entry"
  shows "requestImage w p x y z = (Inr (Some (data entry)), p, [])"
  using assms by (simp add: requestImage_def cacheLookup_def)

text \<open>The sweep keeps every entry that is not older than the cache time.\<close>

lemma sweep_keeps:
  assumes "cache key = Some entry" and "t - time entry \<le> ttl"
  shows "sweep t ttl cache key = Some entry"
  using assms by (simp add: sweep_def)

text \<open>
  Claim C1, run on the code. Cache time 1000 ms. The first request for tile (0, 0, 0), at
  clock time 0, issues one windowed read and returns the image rendered then. The same
  request made when the clock shows 5000, with no other request in between, is 4000 ms
  past the cache time: it issues no read and returns the image stored at time 0, and
  the provider is unchanged.
\<close>

theorem requestImage_returns_stale_entry:
  "(case requestImage (worldAt goodDecoder 0) (rgbProvider 1000) 0 0 0 of
      (res1, p1, calls1) \<Rightarrow>
        res1 = Inr (Some (Imagery 0)) \<and> length calls1 = 1 \<and>
        (case requestImage (worldAt goodDecoder 5000) p1 0 0 0 of
           (res2, p2, calls2) \<Rightarrow> res2 = Inr (Some (Imagery 0)) \<and> calls2 = [] \<and> p2 = p1))"
  by (simp add: tileKey_origin example_defs pipeline_defs Let_def)

text \<open>A failed windowed read: \<^verbatim>\<open>_loadTile\<close> raises the error event and throws, and the
  \<^verbatim>\<open>catch\<close> of \<^verbatim>\<open>requestImage\<close> raises it again before throwing it to the caller.\<close>

lemma loadTile_read_failure:
  assumes "loadTile w p x y z = (Inl e, p1, [call])"
  shows "this_error p1 = this_error p @ [e]"
  using assms
  by (auto simp: loadTile_def imageAt_def Let_def split: prod.splits sum.splits option.splits)

lemma requestImage_read_failure:
  assumes "ready p" and "minimumLevel p \<le> z" and "z \<le> maximumLevel p"
    and "cacheLookup p (tileKey x y z) = Inr None"
    and "loadTile w p x y z = (Inl e, p1, [call])"
  shows "\<exists>p2. requestImage w p x y z = (Inl e, p2, [call])
              \<and> this_error p2 = this_error p @ [e, e]"
  using assms loadTile_read_failure[OF assms(5)]
  by (simp add: requestImage_def renderTile_def)

lemma loadTile_success_frame:
  assumes "loadTile w p x y z = (Inr t, p1, calls)"
  shows "this_error p1 = this_error p \<and> this_imagesCache p1 = this_imagesCache p
         \<and> this_cacheTime p1 = this_cacheTime p \<and> length calls = 1"
  using assms
  by (auto simp: loadTile_def imageAt_def Let_def split: prod.splits sum.splits option.splits)

text \<open>A failure of the composite step, or of fetching the image, passes only the
  \<^verbatim>\<open>catch\<close> of \<^verbatim>\<open>requestImage\<close>: the error event is raised once.\<close>

lemma requestImage_composite_failure:
  assumes "ready p" and "minimumLevel p \<le> z" and "z \<le> maximumLevel p"
    and "cacheLookup p (tileKey x y z) = Inr None"
    and "loadTile w p x y z = (Inr t, p1, calls)"
    and "\<not> destroyedWhileLoading w" and "\<not> this_destroyed p1"
    and "composite w p1 t = Inl e"
  shows "\<exists>p2. requestImage w p x y z = (Inl e, p2, calls)
              \<and> this_error p2 = this_error p @ [e]"
  using assms loadTile_success_frame[OF assms(5)]
  by (simp add: requestImage_def renderTile_def)

lemma requestImage_fetch_failure:
  assumes "ready p" and "minimumLevel p \<le> z" and "z \<le> maximumLevel p"
    and "cacheLookup p (tileKey x y z) = Inr None"
    and "imageAt p (levelAt (cogLevels p) z) = (Inl e, p1)"
  shows "\<exists>p2. requestImage w p x y z = (Inl e, p2, [])
              \<and> this_error p2 = this_error p @ [e]"
  using assms
  by (auto simp: requestImage_def renderTile_def loadTile_def imageAt_def
      split: option.splits sum.splits)

text \<open>
  Claim C3, run on the code. The decode library rejects the windowed read of tile
  (0, 0, 0). The request is rejected with that same error and issued the one read (no
  retry), and the error event has been raised twice with it: once by \<^verbatim>\<open>_loadTile\<close> and
  once by \<^verbatim>\<open>requestImage\<close>.
\<close>

theorem requestImage_decode_error_raised_twice:
  "(case requestImage (worldAt failingDecoder 0) (rgbProvider 1000) 0 0 0 of
      (res, p1, calls) \<Rightarrow>
        res = Inl (Rejected ''read failed'')
        \<and> this_error p1 = [Rejected ''read failed'', Rejected ''read failed'']
        \<and> length calls = 1)"
  by (simp add: tileKey_origin example_defs pipeline_defs Let_def)

section \<open>Properties of the constructor\<close>

lemma showInt_5: "showInt 5 = ''5''"
  by (simp add: showInt_def showNat.simps[of 5] digitChar_def)

lemmas ctor_defs = constructor_def rgbOptions_def rgbImage_def squareImage_def
  rgbRenderOptions_def emptyRenderOptions_def truthyBool_def defaultMode_def defaultBand_def
  resolveRectangle_def prjCodeOf_def exampleLibraries_def initPlot_def orElse512_def
  normalizeEast_def fromDegrees_def toRadians_def Let_def grayOptions_def grayRenderOptions_def
  truthyString_def byteRange_def projectedOptions_def projectCorners_def twoBandOptions_def
  twoBandImage_def singleOf_def unprojectedOptions_def

text \<open>The constructor returns a provider exactly when the RGB guard does not fire and the
  rectangle can be resolved.\<close>

lemma constructor_Inr_iff:
  "(\<exists>p. constructor libs opts = Inr p)
     \<longleftrightarrow> \<not> rgbGuard opts
         \<and> (\<exists>rect. resolveRectangle libs (opt_projFunc opts) (opt_image opts) = Inr rect)"
  by (auto simp: constructor_def rgbGuard_def Let_def emptyRenderOptions_def truthyBool_def
      split: option.splits sum.splits key.splits)

lemma constructor_Inr_fields:
  assumes "constructor libs opts = Inr p"
  shows "ready p"
    and "(plot p, this_error p) = initPlot libs (renderOptions p) (bands p) (noData p)"
    and "\<exists>rect. resolveRectangle libs (opt_projFunc opts) (opt_image opts) = Inr rect
            \<and> rectangle p = normalizeEast rect"
    and "renderOptions p = defaultBand (defaultMode (getSamplesPerPixel (opt_image opts))
           (case opt_renderOptions opts of None \<Rightarrow> emptyRenderOptions | Some ro \<Rightarrow> ro))"
  using assms
  by (auto simp: constructor_def Let_def split: if_splits sum.splits)

lemma constructor_rgb_guard:
  assumes "getSamplesPerPixel (opt_image opts) < 3" and "opt_renderOptions opts = Some ro"
    and "truthyBool (convertToRGB ro)"
  shows "constructor libs opts = Inl rgbError"
  using assms by (simp add: constructor_def rgbError_def Let_def)

text \<open>An unresolvable band of a single-band provider is reported on the error event by
  the plot block, which assigns no plot object.\<close>

lemma initPlot_invalid_band:
  assumes "single ro = Holds sb" and "\<not> truthyString (expression sb)" and "band sb = Some b"
    and "bt b = None"
  shows "initPlot libs ro bt nd = (None, [DeveloperError (''Invalid band'' @ showInt b)])"
  using assms by (simp add: initPlot_def singleOf_def)

text \<open>
  Claim C4, as the code has it. A failure of the construction sequence outside the block
  that builds the single-band plot object (the RGB guard, the resolution of the rectangle)
  aborts construction: the constructor throws and there is no provider, so nothing is
  ever marked ready. When neither of the two fails the constructor returns a provider
  that is marked ready, whatever happened in the plot block: the errors raised there
  (an unresolvable band among them) are exactly the errors on its error event, and its
  plot object is the one the block assigned, if any.
\<close>

theorem constructor_aborts_outside_plot_block:
  "(rgbGuard opts \<or> (\<exists>e. resolveRectangle libs (opt_projFunc opts) (opt_image opts) = Inl e)
      \<longrightarrow> (\<exists>e. constructor libs opts = Inl e))
   \<and> (\<not> rgbGuard opts
       \<and> (\<exists>rect. resolveRectangle libs (opt_projFunc opts) (opt_image opts) = Inr rect)
      \<longrightarrow> (\<exists>p. constructor libs opts = Inr p \<and> ready p
               \<and> (plot p, this_error p)
                   = initPlot libs (renderOptions p) (bands p) (noData p)))"
proof (intro conjI impI)
  assume "rgbGuard opts
          \<or> (\<exists>e. resolveRectangle libs (opt_projFunc opts) (opt_image opts) = Inl e)"
  then have "\<not> (\<exists>p. constructor libs opts = Inr p)"
    unfolding constructor_Inr_iff by auto
  then show "\<exists>e. constructor libs opts = Inl e" by (cases "constructor libs opts") auto
next
  assume "\<not> rgbGuard opts
          \<and> (\<exists>rect. resolveRectangle libs (opt_projFunc opts) (opt_image opts) = Inr rect)"
  then obtain p where p: "constructor libs opts = Inr p" using constructor_Inr_iff by blast
  from constructor_Inr_fields(1,2)[OF p] p
  show "\<exists>p. constructor libs opts = Inr p \<and> ready p
               \<and> (plot p, this_error p) = initPlot libs (renderOptions p) (bands p) (noData p)"
    by blast
qed

theorem constructor_aborts_outside_plot_block_witness:
  "rgbGuard ((rgbOptions 1000)\<lparr> opt_image := squareImage 1024 \<rparr>)
   \<and> (\<exists>e. constructor exampleLibraries ((rgbOptions 1000)\<lparr> opt_image := squareImage 1024 \<rparr>)
            = Inl e)
   \<and> \<not> rgbGuard (grayOptions 5)
   \<and> resolveRectangle exampleLibraries (opt_projFunc (grayOptions 5)) (opt_image (grayOptions 5))
       = Inr (fromDegrees 0 0 10 10)
   \<and> (\<exists>p. constructor exampleLibraries (grayOptions 5) = Inr p \<and> ready p
          \<and> (plot p, this_error p)
              = initPlot exampleLibraries (renderOptions p) (bands p) (noData p))"
proof -
  have g1: "rgbGuard ((rgbOptions 1000)\<lparr> opt_image := squareImage 1024 \<rparr>)"
    by (simp add: rgbGuard_def ctor_defs)
  have g2: "\<not> rgbGuard (grayOptions 5)"
    by (simp add: rgbGuard_def ctor_defs)
  have r2: "resolveRectangle exampleLibraries (opt_projFunc (grayOptions 5))
              (opt_image (grayOptions 5)) = Inr (fromDegrees 0 0 10 10)"
    by (simp add: ctor_defs)
  from constructor_aborts_outside_plot_block
         [of "(rgbOptions 1000)\<lparr> opt_image := squareImage 1024 \<rparr>" exampleLibraries] g1
  have a: "\<exists>e. constructor exampleLibraries ((rgbOptions 1000)\<lparr> opt_image := squareImage 1024 \<rparr>)
                 = Inl e"
    by blast
  from constructor_aborts_outside_plot_block[of "grayOptions 5" exampleLibraries] g2 r2
  have b: "\<exists>p. constructor exampleLibraries (grayOptions 5) = Inr p \<and> ready p
          \<and> (plot p, this_error p)
              = initPlot exampleLibraries (renderOptions p) (bands p) (noData p)"
    by blast
  from g1 a g2 r2 b show ?thesis by blast
qed

text \<open>
  Claim C4, as stated, at a single-band provider asked for band 5 when only band 1 has a
  range: the plot block throws \<^verbatim>\<open>Invalid band5\<close>, the error is caught and raised on the
  error event, and the constructor goes on to return a provider that is marked ready.
\<close>

theorem constructor_invalid_band_counterexample:
  "(case constructor exampleLibraries (grayOptions 5) of
      Inl e \<Rightarrow> False
    | Inr p \<Rightarrow> ready p \<and> this_error p = [DeveloperError ''Invalid band5''] \<and> plot p = None)"
  by (simp add: ctor_defs showInt_5)

subsection \<open>RGB conversion and the number of bands\<close>

lemma bandSync_rgb_no_fallback:
  "truthyBool (convertToRGB ro) \<Longrightarrow> snd (bandSync tn ro img bt i) = False"
  by (auto simp: bandSync_def Let_def split: option.splits prod.splits)

lemma bandsSync_rgb_no_pending:
  "truthyBool (convertToRGB ro) \<Longrightarrow> snd (bandsSync tn ro img bt rs) = []"
proof (induction rs arbitrary: bt)
  case Nil
  then show ?case by simp
next
  case (Cons i rs)
  obtain bt' pend where b: "bandSync tn ro img bt i = (bt', pend)"
    by (cases "bandSync tn ro img bt i")
  with bandSync_rgb_no_fallback[OF Cons.prems, of tn img bt i] have "pend = False" by simp
  with b Cons.IH[OF Cons.prems, of bt'] show ?case by (simp split: prod.splits)
qed

text \<open>With \<open>convertToRGB\<close> set, the band statistics are resolved without a single read.\<close>

lemma getBandValues_rgb_no_reads:
  assumes "truthyBool (convertToRGB ro)"
  shows "\<exists>bt. getBandValues st dec ro rs src img ls = (Inr bt, [])"
proof -
  obtain bt pend where b: "bandsSync (toNumber st) ro img Map.empty rs = (bt, pend)"
    by (cases "bandsSync (toNumber st) ro img Map.empty rs")
  with bandsSync_rgb_no_pending[OF assms, of "toNumber st" img Map.empty rs]
  have "pend = []" by simp
  with b show ?thesis by (simp add: getBandValues_def)
qed

text \<open>
  Claim C5. For an image of fewer than three samples per pixel and render options whose
  \<open>convertToRGB\<close> is set, the constructor throws the \<^verbatim>\<open>DeveloperError\<close> "Can not render the
  image as RGB ...". The factory \<^verbatim>\<open>fromGeoTIFF\<close> on a source with such a first image fails
  as well, wrapping the error in an \<^verbatim>\<open>Error\<close>, and has issued no windowed read when it
  does.
\<close>

theorem convertToRGB_rejected_below_three_samples:
  assumes "getSamplesPerPixel img < 3" and "convertToRGB ro = Holds True"
  shows "constructor libs (opts\<lparr> opt_image := img, opt_renderOptions := Some ro \<rparr>)
           = Inl (DeveloperError
                   ''Can not render the image as RGB, please check the convertToRGB parameter'')
       \<and> (src None = Inr img
            \<longrightarrow> (\<exists>msg. fromGeoTIFF libs st dec src n ro = (Inl (Error msg), [])))"
proof -
  from assms(2) have t: "truthyBool (convertToRGB ro)" by (simp add: truthyBool_def)
  have c: "\<And>o'. opt_image o' = img \<Longrightarrow> opt_renderOptions o' = Some ro
             \<Longrightarrow> constructor libs o' = Inl rgbError"
    using assms(1) t by (simp add: constructor_rgb_guard)
  have f: "\<exists>msg. fromGeoTIFF libs st dec src n ro = (Inl (Error msg), [])"
    if s: "src None = Inr img"
  proof -
    obtain res calls where cp: "createProvider libs st dec src n ro = (res, calls)"
      by (cases "createProvider libs st dec src n ro")
    have "calls = [] \<and> (\<exists>e. res = Inl e)"
    proof (cases "getCogLevels src n (orElse512 None (getTileWidth img))")
      case (Inl e)
      with cp s show ?thesis by (auto simp: createProvider_def)
    next
      case ls: (Inr ls)
      show ?thesis
      proof (cases "getReadSamples (findAndSortBandNumbers st) ro")
        case (Inl e)
        with cp s ls show ?thesis by (auto simp: createProvider_def)
      next
        case rs: (Inr rs)
        from getBandValues_rgb_no_reads[OF t, of st dec rs src img ls]
        obtain bt where bt: "getBandValues st dec ro rs src img ls = (Inr bt, [])" by blast
        with cp s ls rs show ?thesis by (auto simp: createProvider_def c)
      qed
    qed
    then show ?thesis using cp by (auto simp: fromGeoTIFF_def)
  qed
  from c[of "opts\<lparr> opt_image := img, opt_renderOptions := Some ro \<rparr>"] f
  show ?thesis by (simp add: rgbError_def)
qed

theorem convertToRGB_rejected_below_three_samples_witness:
  "getSamplesPerPixel (squareImage 1024) < 3 \<and> convertToRGB rgbRenderOptions = Holds True
   \<and> constructor exampleLibraries
        ((rgbOptions 1000)\<lparr> opt_image := squareImage 1024,
                            opt_renderOptions := Some rgbRenderOptions \<rparr>)
       = Inl (DeveloperError
               ''Can not render the image as RGB, please check the convertToRGB parameter'')
   \<and> twoLevelSource None = Inr (squareImage 1024)
   \<and> (\<exists>msg. fromGeoTIFF exampleLibraries exampleStatistics goodDecoder twoLevelSource 2
               rgbRenderOptions = (Inl (Error msg), []))"
proof -
  have s: "getSamplesPerPixel (squareImage 1024) < 3" by (simp add: squareImage_def)
  have c: "convertToRGB rgbRenderOptions = Holds True"
    by (simp add: rgbRenderOptions_def emptyRenderOptions_def)
  have i: "twoLevelSource None = Inr (squareImage 1024)" by (simp add: twoLevelSource_def)
  from convertToRGB_rejected_below_three_samples
         [OF s c, of exampleLibraries "rgbOptions 1000" twoLevelSource exampleStatistics
            goodDecoder 2] s c i
  show ?thesis by blast
qed

text \<open>
  Claim C10, as the code has it. For an image of exactly two samples per pixel and options
  that configure no render mode (none of the keys \<open>single\<close>, \<open>multi\<close>, \<open>convertToRGB\<close>), the
  constructor never throws the RGB error: the guard reads the caller's own \<open>convertToRGB\<close>
  before the default is assigned. The only error it can throw is the one of the
  rectangle's resolution, and whenever the rectangle resolves it returns a provider that
  is marked ready and whose render options have \<open>convertToRGB\<close> set to true and neither
  \<open>single\<close> nor \<open>multi\<close>.
\<close>

theorem two_band_default_is_convertToRGB:
  assumes "getSamplesPerPixel (opt_image opts) = 2" and "noModeConfigured opts"
  shows "constructor libs opts
           \<noteq> Inl (DeveloperError
                    ''Can not render the image as RGB, please check the convertToRGB parameter'')
       \<and> (\<forall>e. constructor libs opts = Inl e
              \<longrightarrow> resolveRectangle libs (opt_projFunc opts) (opt_image opts) = Inl e)
       \<and> (\<forall>rect. resolveRectangle libs (opt_projFunc opts) (opt_image opts) = Inr rect
              \<longrightarrow> (\<exists>p. constructor libs opts = Inr p \<and> ready p
                        \<and> convertToRGB (renderOptions p) = Holds True
                        \<and> single (renderOptions p) = Absent \<and> multi (renderOptions p) = None))"
proof -
  have g: "\<not> rgbGuard opts"
    using assms
    by (auto simp: rgbGuard_def noModeConfigured_def truthyBool_def split: option.splits)
  have a: "\<forall>e. constructor libs opts = Inl e
              \<longrightarrow> resolveRectangle libs (opt_projFunc opts) (opt_image opts) = Inl e"
    using assms
    by (auto simp: constructor_def Let_def noModeConfigured_def truthyBool_def
        emptyRenderOptions_def split: option.splits sum.splits if_splits)
  have "resolveRectangle libs (opt_projFunc opts) (opt_image opts) \<noteq> Inl rgbError"
    by (auto simp: resolveRectangle_def rgbError_def Let_def split: option.splits prod.splits)
  with a have b: "constructor libs opts \<noteq> Inl rgbError" by auto
  have c: "\<exists>p. constructor libs opts = Inr p \<and> ready p
                        \<and> convertToRGB (renderOptions p) = Holds True
                        \<and> single (renderOptions p) = Absent \<and> multi (renderOptions p) = None"
    if r: "resolveRectangle libs (opt_projFunc opts) (opt_image opts) = Inr rect" for rect
  proof -
    from g r obtain p where p: "constructor libs opts = Inr p"
      using constructor_Inr_iff by blast
    from constructor_Inr_fields(1,4)[OF p] assms
    have "ready p \<and> convertToRGB (renderOptions p) = Holds True
                        \<and> single (renderOptions p) = Absent \<and> multi (renderOptions p) = None"
      by (auto simp: noModeConfigured_def defaultMode_def defaultBand_def emptyRenderOptions_def
          truthyBool_def singleOf_def split: option.splits)
    with p show ?thesis by blast
  qed
  from a b c show ?thesis unfolding rgbError_def by blast
qed

theorem two_band_default_is_convertToRGB_witness:
  "getSamplesPerPixel (opt_image twoBandOptions) = 2 \<and> noModeConfigured twoBandOptions
   \<and> resolveRectangle exampleLibraries (opt_projFunc twoBandOptions) (opt_image twoBandOptions)
       = Inr (fromDegrees 0 0 10 10)
   \<and> (\<exists>p. constructor exampleLibraries twoBandOptions = Inr p \<and> ready p
          \<and> convertToRGB (renderOptions p) = Holds True
          \<and> single (renderOptions p) = Absent \<and> multi (renderOptions p) = None)"
proof -
  have s: "getSamplesPerPixel (opt_image twoBandOptions) = 2" by (simp add: ctor_defs)
  have m: "noModeConfigured twoBandOptions" by (simp add: noModeConfigured_def ctor_defs)
  have r: "resolveRectangle exampleLibraries (opt_projFunc twoBandOptions)
             (opt_image twoBandOptions) = Inr (fromDegrees 0 0 10 10)"
    by (simp add: ctor_defs)
  from two_band_default_is_convertToRGB[OF s m, of exampleLibraries] r s m
  show ?thesis by blast
qed

lemma showInt_32767: "showInt 32767 = ''32767''"
  by (simp add: showInt_def showNat.simps[of 32767] showNat.simps[of 3276] showNat.simps[of 327]
      showNat.simps[of 32] showNat.simps[of 3] digitChar_def)

text \<open>
  Claim C10, as stated, at a two-band image with no render mode configured whose
  projection cannot be resolved: construction does not succeed, it fails with the
  \<^verbatim>\<open>DeveloperError\<close> of the unsupported projection.
\<close>

theorem two_band_unresolved_projection_counterexample:
  "getSamplesPerPixel (opt_image unprojectedOptions) = 2 \<and> noModeConfigured unprojectedOptions
   \<and> constructor exampleLibraries unprojectedOptions
       = Inl (DeveloperError
               ''Unspported projection type: EPSG:32767, please add projFunc parameter to handle projection'')"
  by (simp add: noModeConfigured_def ctor_defs showCode_def showInt_32767)

text \<open>A key \<open>convertToRGB\<close> that is present but holds \<^verbatim>\<open>undefined\<close> is not an absent key:
  the spread copies it over the default, and a two-band provider ends with no render
  mode at all.\<close>

lemma nullish_convertToRGB_resolves_no_mode:
  "defaultBand (defaultMode 2 (emptyRenderOptions\<lparr> convertToRGB := Nullish \<rparr>))
     = emptyRenderOptions\<lparr> convertToRGB := Nullish \<rparr>"
  by (simp add: defaultMode_def defaultBand_def emptyRenderOptions_def singleOf_def truthyBool_def)

subsection \<open>The rectangle\<close>








section \<open>Properties of the band statistics\<close>

lemma embeddedStatistics_Some:
  assumes "getGDALMetadata img i = Some element"
    and "element ''STATISTICS_MINIMUM'' = Some lo" and "element ''STATISTICS_MAXIMUM'' = Some hi"
    and "lo \<noteq> []" and "hi \<noteq> []"
  shows "embeddedStatistics img i = Some (lo, hi)"
  using assms by (simp add: embeddedStatistics_def)

lemma bandSync_statistics:
  "embeddedStatistics img i = Some (lo, hi) \<Longrightarrow>
     bandSync tn ro img bt i = (bt(i + 1 \<mapsto> \<lparr> rangeMin = tn lo, rangeMax = tn hi \<rparr>), False)"
  by (simp add: bandSync_def)

lemma bandSync_other:
  "j \<noteq> i \<Longrightarrow> fst (bandSync tn ro img bt j) (i + 1) = bt (i + 1)"
  by (auto simp: bandSync_def Let_def split: option.splits prod.splits)

lemma bandSync_pending:
  "snd (bandSync tn ro img bt j) \<Longrightarrow> embeddedStatistics img j = None"
  by (auto simp: bandSync_def Let_def split: option.splits prod.splits)

lemma bandsSync_pending:
  "j \<in> set (snd (bandsSync tn ro img bt rs)) \<Longrightarrow> embeddedStatistics img j = None"
proof (induction rs arbitrary: bt)
  case Nil
  then show ?case by simp
next
  case (Cons k rs)
  obtain bt' pend where b: "bandSync tn ro img bt k = (bt', pend)"
    by (cases "bandSync tn ro img bt k")
  obtain bt'' later where l: "bandsSync tn ro img bt' rs = (bt'', later)"
    by (cases "bandsSync tn ro img bt' rs")
  from Cons.prems b l have "(pend \<and> j = k) \<or> j \<in> set later" by (auto split: if_splits)
  then show ?case
  proof
    assume "pend \<and> j = k"
    with b bandSync_pending[of tn ro img bt k] show ?thesis by simp
  next
    assume "j \<in> set later"
    with l Cons.IH[of bt'] show ?thesis by simp
  qed
qed

lemma bandsSync_statistics:
  assumes "embeddedStatistics img i = Some (lo, hi)"
  shows "i \<in> set rs \<or> bt (i + 1) = Some \<lparr> rangeMin = tn lo, rangeMax = tn hi \<rparr> \<Longrightarrow>
     fst (bandsSync tn ro img bt rs) (i + 1) = Some \<lparr> rangeMin = tn lo, rangeMax = tn hi \<rparr>"
proof (induction rs arbitrary: bt)
  case Nil
  then show ?case by simp
next
  case (Cons k rs)
  obtain bt' pend where b: "bandSync tn ro img bt k = (bt', pend)"
    by (cases "bandSync tn ro img bt k")
  have "bt' (i + 1) = Some \<lparr> rangeMin = tn lo, rangeMax = tn hi \<rparr> \<or> i \<in> set rs"
  proof (cases "k = i")
    case True
    with b bandSync_statistics[OF assms, of tn ro bt] show ?thesis by auto
  next
    case False
    with bandSync_other[of k i tn ro img bt] b have "bt' (i + 1) = bt (i + 1)" by simp
    with Cons.prems False show ?thesis by auto
  qed
  then have "fst (bandsSync tn ro img bt' rs) (i + 1) = Some \<lparr> rangeMin = tn lo, rangeMax = tn hi \<rparr>"
    using Cons.IH[of bt'] by blast
  with b show ?case by (auto split: prod.splits)
qed

lemma bandFallbacks_other:
  "i \<notin> set pend \<Longrightarrow> bandFallbacks src dec gmm l0 nd bt pend = (Inr bt', calls) \<Longrightarrow>
     bt' (i + 1) = bt (i + 1)"
proof (induction pend arbitrary: bt calls)
  case Nil
  then show ?case by simp
next
  case (Cons k pend)
  from Cons.prems(2) obtain found c1 where f: "bandFallback src dec gmm l0 nd k = (Inr found, c1)"
    by (cases "bandFallback src dec gmm l0 nd k") (auto split: sum.splits prod.splits)
  with Cons.prems(2) obtain c2 where
    r: "bandFallbacks src dec gmm l0 nd (bt(k + 1 \<mapsto> found)) pend = (Inr bt', c2)"
    by (auto split: prod.splits)
  from Cons.prems(1) have "i \<notin> set pend" "k \<noteq> i" by auto
  with Cons.IH[OF _ r] show ?case by simp
qed

text \<open>
  Claim C7. For every band \<open>i\<close> of \<open>readSamples\<close> whose metadata holds both
  \<^verbatim>\<open>STATISTICS_MINIMUM\<close> and \<^verbatim>\<open>STATISTICS_MAXIMUM\<close> (as the non-empty texts the truthiness
  test of the code asks for), whenever \<^verbatim>\<open>getBandValues\<close> resolves, the range of band
  \<open>i + 1\<close> is exactly the two embedded values turned into numbers: whatever the render
  options say (\<open>convertToRGB\<close>, the \<open>multi\<close> channels, the \<open>single\<close> domain) and whatever
  the reads of the sampling fallback would return.
\<close>

theorem embedded_statistics_take_priority:
  assumes "i \<in> set rs" and "getGDALMetadata img i = Some element"
    and "element ''STATISTICS_MINIMUM'' = Some lo" and "element ''STATISTICS_MAXIMUM'' = Some hi"
    and "lo \<noteq> []" and "hi \<noteq> []"
    and "getBandValues st dec ro rs src img ls = (Inr bt, calls)"
  shows "bt (i + 1) = Some \<lparr> rangeMin = toNumber st lo, rangeMax = toNumber st hi \<rparr>"
proof -
  have e: "embeddedStatistics img i = Some (lo, hi)"
    using assms(2-6) by (rule embeddedStatistics_Some)
  obtain bt0 pend where b: "bandsSync (toNumber st) ro img Map.empty rs = (bt0, pend)"
    by (cases "bandsSync (toNumber st) ro img Map.empty rs")
  from bandsSync_statistics[OF e, of rs Map.empty "toNumber st" ro] assms(1) b
  have s: "bt0 (i + 1) = Some \<lparr> rangeMin = toNumber st lo, rangeMax = toNumber st hi \<rparr>" by simp
  from bandsSync_pending[of i "toNumber st" ro img Map.empty rs] b e
  have n: "i \<notin> set pend" by auto
  from assms(7) b have "bandFallbacks src dec (getMinMax st) (levelAt ls 0)
            (case nodata ro of Some v \<Rightarrow> Some v | None \<Rightarrow> getGDALNoData img) bt0 pend = (Inr bt, calls)"
    by (simp add: getBandValues_def)
  from bandFallbacks_other[OF n this] s show ?thesis by simp
qed

text \<open>When every band read has embedded statistics, the resolver returns without a read.\<close>

lemma bandsSync_pending_subset:
  "set (snd (bandsSync tn ro img bt rs)) \<subseteq> set rs"
proof (induction rs arbitrary: bt)
  case Nil
  then show ?case by simp
next
  case (Cons k rs)
  obtain bt' pend where b: "bandSync tn ro img bt k = (bt', pend)"
    by (cases "bandSync tn ro img bt k")
  obtain bt'' later where l: "bandsSync tn ro img bt' rs = (bt'', later)"
    by (cases "bandsSync tn ro img bt' rs")
  from Cons.IH[of bt'] l have "set later \<subseteq> set rs" by simp
  with b l show ?case by auto
qed

lemma getBandValues_statistics_only:
  assumes "\<forall>i \<in> set rs. embeddedStatistics img i \<noteq> None"
  shows "\<exists>bt. getBandValues st dec ro rs src img ls = (Inr bt, [])"
proof -
  obtain bt pend where b: "bandsSync (toNumber st) ro img Map.empty rs = (bt, pend)"
    by (cases "bandsSync (toNumber st) ro img Map.empty rs")
  have "pend = []"
  proof (rule ccontr)
    assume "pend \<noteq> []"
    then obtain j where j: "j \<in> set pend" by (cases pend) auto
    with b bandsSync_pending[of j "toNumber st" ro img Map.empty rs]
    have "embeddedStatistics img j = None" by simp
    moreover from j b bandsSync_pending_subset[of "toNumber st" ro img Map.empty rs]
    have "j \<in> set rs" by auto
    ultimately show False using assms by blast
  qed
  with b show ?thesis by (simp add: getBandValues_def)
qed

lemma decimal3: "decimalNumber ''3'' = 3" "decimalNumber ''97'' = 97"
  by (simp_all add: decimalNumber_def)

theorem embedded_statistics_take_priority_witness:
  "(0::int) \<in> set [0] \<and> getGDALMetadata statsImage 0 = Some statsElement
   \<and> statsElement ''STATISTICS_MINIMUM'' = Some ''3''
   \<and> statsElement ''STATISTICS_MAXIMUM'' = Some ''97''
   \<and> (\<exists>bt. getBandValues exampleStatistics failingDecoder domainRenderOptions [0] twoLevelSource
             statsImage [1, 0] = (Inr bt, [])
          \<and> bt (0 + 1) = Some \<lparr> rangeMin = 3, rangeMax = 97 \<rparr>)"
proof -
  have m: "(0::int) \<in> set [0]" by simp
  have g: "getGDALMetadata statsImage 0 = Some statsElement" by (simp add: statsImage_def)
  have lo: "statsElement ''STATISTICS_MINIMUM'' = Some ''3''" by (simp add: statsElement_def)
  have hi: "statsElement ''STATISTICS_MAXIMUM'' = Some ''97''" by (simp add: statsElement_def)
  have n1: "''3'' \<noteq> []" and n2: "''97'' \<noteq> []" by simp_all
  have "embeddedStatistics statsImage 0 = Some (''3'', ''97'')"
    using g lo hi by (simp add: embeddedStatistics_def)
  then obtain bt where r: "getBandValues exampleStatistics failingDecoder domainRenderOptions [0]
             twoLevelSource statsImage [1, 0] = (Inr bt, [])"
    by (simp add: getBandValues_def bandSync_def)
  from embedded_statistics_take_priority[OF m g lo hi n1 n2 r]
  have "bt (0 + 1) = Some \<lparr> rangeMin = 3, rangeMax = 97 \<rparr>"
    by (simp add: exampleStatistics_def decimal3)
  with m g lo hi r show ?thesis by blast
qed

section \<open>Properties of the double arithmetic\<close>

lemma pow2_powr: "pow2 k = 2 powr (real_of_int k)"
proof (cases "k \<ge> 0")
  case True
  then have "real_of_int k = real (nat k)" by simp
  then show ?thesis using True by (simp add: pow2_def powr_realpow del: of_nat_nat)
next
  case False
  then have "real_of_int k = - real (nat (- k))" by simp
  then show ?thesis using False
    by (simp add: pow2_def powr_minus powr_realpow divide_inverse del: of_nat_nat)
qed

lemma pow2_pos: "0 < pow2 k" by (simp add: pow2_powr)

lemma pow2_add: "pow2 (a + b) = pow2 a * pow2 b"
  by (simp add: pow2_powr powr_add)

lemma pow2_le_iff: "pow2 a \<le> pow2 b \<longleftrightarrow> a \<le> b"
  by (simp add: pow2_powr)

lemma pow2_less_iff: "pow2 a < pow2 b \<longleftrightarrow> a < b"
  by (simp add: pow2_powr)

lemma pow2_nat: "0 \<le> k \<Longrightarrow> pow2 k = real_of_int (2 ^ nat k)"
  by (simp add: pow2_def)

lemma finite_binades: "finite {e \<in> {- 1022 .. 1023 :: int}. P e}"
  by (rule finite_subset[of _ "{- 1022 .. 1023}"]) auto

lemma binade_eqI:
  assumes "pow2 e \<le> \<bar>x\<bar>" and "\<bar>x\<bar> < pow2 (e + 1)" and "- 1022 \<le> e" and "e \<le> 1023"
  shows "binade x = e"
proof -
  have "pow2 (- 1022) \<le> pow2 e" using assms(3) by (simp only: pow2_le_iff)
  with assms(1) have nsub: "\<not> \<bar>x\<bar> < pow2 (- 1022)" by linarith
  have "Max {e' \<in> {- 1022 .. 1023}. pow2 e' \<le> \<bar>x\<bar>} = e"
  proof (rule Max_eqI)
    show "finite {e' \<in> {- 1022 .. 1023}. pow2 e' \<le> \<bar>x\<bar>}" by (rule finite_binades)
    show "e \<in> {e' \<in> {- 1022 .. 1023}. pow2 e' \<le> \<bar>x\<bar>}" using assms by simp
    fix y assume "y \<in> {e' \<in> {- 1022 .. 1023}. pow2 e' \<le> \<bar>x\<bar>}"
    then have "pow2 y \<le> \<bar>x\<bar>" by simp
    with assms(2) have "pow2 y < pow2 (e + 1)" by linarith
    then show "y \<le> e" by (simp add: pow2_less_iff)
  qed
  with nsub show ?thesis by (simp add: binade_def)
qed

lemma binade_subnormal: "\<bar>x\<bar> < pow2 (- 1022) \<Longrightarrow> binade x = - 1022"
  by (simp add: binade_def)

lemma binade_bounds: "- 1022 \<le> binade x \<and> binade x \<le> 1023"
proof (cases "\<bar>x\<bar> < pow2 (- 1022)")
  case True
  then show ?thesis by (simp add: binade_def)
next
  case False
  let ?S = "{e \<in> {- 1022 .. 1023}. pow2 e \<le> \<bar>x\<bar>}"
  have "- 1022 \<in> ?S" using False by simp
  then have ne: "?S \<noteq> {}" by blast
  have "Max ?S \<in> ?S" using finite_binades ne by (rule Max_in)
  then show ?thesis using False by (simp add: binade_def)
qed

lemma binade_le: "\<not> \<bar>x\<bar> < pow2 (- 1022) \<Longrightarrow> pow2 (binade x) \<le> \<bar>x\<bar>"
proof -
  assume a: "\<not> \<bar>x\<bar> < pow2 (- 1022)"
  let ?S = "{e \<in> {- 1022 .. 1023}. pow2 e \<le> \<bar>x\<bar>}"
  have "- 1022 \<in> ?S" using a by simp
  then have ne: "?S \<noteq> {}" by blast
  have "Max ?S \<in> ?S" using finite_binades ne by (rule Max_in)
  then show ?thesis using a by (simp add: binade_def)
qed

lemma roundHalfEven_int: "roundHalfEven (real_of_int n) = n"
  by (simp add: roundHalfEven_def)

lemma toDouble_exact:
  assumes x: "x = real_of_int m * pow2 k" and m: "\<bar>m\<bar> < 2 ^ 53" and k: "- 1074 \<le> k"
    and r: "\<bar>x\<bar> < overflowBound"
  shows "toDouble x = Finite x"
proof -
  let ?e = "binade x"
  have le: "?e - 52 \<le> k"
  proof (cases "\<bar>x\<bar> < pow2 (- 1022)")
    case True
    then show ?thesis using k by (simp add: binade_subnormal)
  next
    case False
    then have "pow2 ?e \<le> \<bar>x\<bar>" by (rule binade_le)
    also have "\<bar>x\<bar> = real_of_int \<bar>m\<bar> * pow2 k"
      using x pow2_pos[of k] by (simp add: abs_mult)
    also have "\<dots> < 2 ^ 53 * pow2 k"
    proof -
      have "real_of_int \<bar>m\<bar> < real_of_int (2 ^ 53)" using m by (simp only: of_int_less_iff)
      then show ?thesis using pow2_pos[of k] by simp
    qed
    also have "\<dots> = pow2 (53 + k)"
    proof -
      have "pow2 53 = 2 ^ 53" by (simp add: pow2_def)
      then show ?thesis by (simp add: pow2_add)
    qed
    finally have "?e < 53 + k" by (simp only: pow2_less_iff)
    then show ?thesis by simp
  qed
  define d where "d = k - (?e - 52)"
  have d: "0 \<le> d" using le by (simp add: d_def)
  have "pow2 k = pow2 d * pow2 (?e - 52)"
    unfolding d_def pow2_add[symmetric] by simp
  then have "x = real_of_int m * pow2 d * pow2 (?e - 52)" using x by simp
  moreover have "pow2 (?e - 52) \<noteq> 0" using pow2_pos[of "?e - 52"] by simp
  ultimately have "x / pow2 (?e - 52) = real_of_int m * pow2 d"
    by (metis nonzero_eq_divide_eq)
  then have q: "x / pow2 (?e - 52) = real_of_int (m * 2 ^ nat d)"
    using d by (simp add: pow2_nat)
  have "real_of_int (roundHalfEven (x / pow2 (?e - 52))) * pow2 (?e - 52) = x"
    unfolding q roundHalfEven_int using q pow2_pos[of "?e - 52"]
    by (metis nonzero_eq_divide_eq less_numeral_extra(3))
  then show ?thesis using r by (auto simp: toDouble_def Let_def)
qed

lemma toInt32_small: "0 \<le> v \<Longrightarrow> v < 2147483648 \<Longrightarrow> toInt32 (Finite v) = \<lfloor>v\<rfloor>"
proof -
  assume a: "0 \<le> v" "v < 2147483648"
  then have "0 \<le> \<lfloor>v\<rfloor>" "\<lfloor>v\<rfloor> < 2147483648" by (simp_all add: floor_less_iff)
  then have "\<lfloor>v\<rfloor> mod 4294967296 = \<lfloor>v\<rfloor>" by simp
  with a \<open>\<lfloor>v\<rfloor> < 2147483648\<close> show ?thesis by (simp add: toInt32_def Let_def)
qed

lemma below_overflowBound: "\<bar>x\<bar> < 2 ^ 32 \<Longrightarrow> \<bar>x\<bar> < overflowBound"
proof -
  assume "\<bar>x\<bar> < 2 ^ 32"
  moreover have "(2::real) ^ 32 \<le> 2 ^ 1024" by (rule power_increasing) simp_all
  ultimately show ?thesis unfolding overflowBound_def by linarith
qed

lemma toDouble_eqI:
  assumes "binade x = e" and "roundHalfEven (x / pow2 (e - 52)) = n"
    and "\<bar>real_of_int n * pow2 (e - 52)\<bar> < overflowBound"
  shows "toDouble x = Finite (real_of_int n * pow2 (e - 52))"
  using assms by (auto simp: toDouble_def Let_def)

lemma toDouble_49th: "toDouble (1 / 49) = Finite (5882252574524729 / 2 ^ 58)"
proof -
  have b: "binade (1 / 49) = - 6"
    by (rule binade_eqI) (simp_all add: pow2_def)
  have p: "pow2 (- 6 - 52) = 1 / 2 ^ 58" by (simp add: pow2_def)
  have f: "\<lfloor>(288230376151711744 :: real) / 49\<rfloor> = 5882252574524729" by simp
  have n: "roundHalfEven ((1 / 49) / pow2 (- 6 - 52)) = 5882252574524729"
    unfolding p by (simp add: roundHalfEven_def Let_def f)
  have "toDouble (1 / 49) = Finite (real_of_int 5882252574524729 * pow2 (- 6 - 52))"
    using b n by (rule toDouble_eqI) (rule below_overflowBound, simp add: pow2_def)
  then show ?thesis by (simp add: pow2_def)
qed

lemma toDouble_49th_times_49:
  "toDouble (5882252574524729 / 2 ^ 58 * 49) = Finite (9007199254740991 / 2 ^ 53)"
proof -
  have b: "binade (5882252574524729 / 2 ^ 58 * 49) = - 1"
    by (rule binade_eqI) (simp_all add: pow2_def)
  have p: "pow2 (- 1 - 52) = 1 / 2 ^ 53" by (simp add: pow2_def)
  have f: "\<lfloor>(288230376151711721 :: real) / 32\<rfloor> = 9007199254740991" by simp
  have n: "roundHalfEven ((5882252574524729 / 2 ^ 58 * 49) / pow2 (- 1 - 52)) = 9007199254740991"
    unfolding p by (simp add: roundHalfEven_def Let_def f)
  have "toDouble (5882252574524729 / 2 ^ 58 * 49)
          = Finite (real_of_int 9007199254740991 * pow2 (- 1 - 52))"
    using b n by (rule toDouble_eqI) (rule below_overflowBound, simp add: pow2_def)
  then show ?thesis by (simp add: pow2_def)
qed


text \<open>Rounding moves a real by at most half a unit in the last place of its binade.\<close>

lemma roundHalfEven_near: "\<bar>real_of_int (roundHalfEven q) - q\<bar> \<le> 1 / 2"
proof -
  have "real_of_int \<lfloor>q\<rfloor> \<le> q" "q < real_of_int \<lfloor>q\<rfloor> + 1" by linarith+
  then show ?thesis by (auto simp: roundHalfEven_def Let_def abs_le_iff)
qed

lemma toDouble_near:
  assumes "toDouble x = Finite r"
  shows "\<bar>r - x\<bar> \<le> pow2 (binade x - 53)"
proof -
  let ?u = "pow2 (binade x - 52)"
  have u: "0 < ?u" by (rule pow2_pos)
  from assms have r: "r = real_of_int (roundHalfEven (x / ?u)) * ?u"
    by (auto simp: toDouble_def Let_def split: if_splits)
  have "x / ?u * ?u = x" using u by simp
  then have "r - x = (real_of_int (roundHalfEven (x / ?u)) - x / ?u) * ?u"
    unfolding r left_diff_distrib by simp
  then have "\<bar>r - x\<bar> = \<bar>real_of_int (roundHalfEven (x / ?u)) - x / ?u\<bar> * \<bar>?u\<bar>"
    by (simp only: abs_mult)
  also have "\<dots> = \<bar>real_of_int (roundHalfEven (x / ?u)) - x / ?u\<bar> * ?u"
    using u by simp
  also have "\<dots> \<le> 1 / 2 * ?u"
    using roundHalfEven_near[of "x / ?u"] u by (intro mult_right_mono) simp_all
  also have "\<dots> = pow2 (binade x - 53)"
  proof -
    have "pow2 (binade x - 52) = pow2 1 * pow2 (binade x - 53)"
      unfolding pow2_add[symmetric] by simp
    then show ?thesis by (simp add: pow2_def)
  qed
  finally show ?thesis .
qed

section \<open>Properties of the feature probe\<close>

lemma imageAt_frame:
  "imageAt p index = (res, p1) \<Longrightarrow>
     this_imagesCache p1 = this_imagesCache p \<and> rectangle p1 = rectangle p
     \<and> renderOptions p1 = renderOptions p \<and> this_error p1 = this_error p"
  by (auto simp: imageAt_def split: option.splits sum.splits)

lemma imageAt_cache_independent:
  "imageAt (p\<lparr> this_imagesCache := c \<rparr>) index
     = (case imageAt p index of (res, p1) \<Rightarrow> (res, p1\<lparr> this_imagesCache := c \<rparr>))"
  by (auto simp: imageAt_def split: option.splits sum.splits)

lemma readWindow_cache_independent:
  "readWindow dec (p\<lparr> this_imagesCache := c \<rparr>) img ropts = readWindow dec p img ropts"
  by (simp add: readWindow_def)

lemma pickFeatures_cache_independent:
  "pickFeatures w (p\<lparr> this_imagesCache := c \<rparr>) x y zoom lon lat
     = (case pickFeatures w p x y zoom lon lat of
          (res, p', calls) \<Rightarrow> (res, p'\<lparr> this_imagesCache := c \<rparr>, calls))"
  by (auto simp: pickFeatures_def imageAt_cache_independent readWindow_cache_independent Let_def
      split: prod.splits sum.splits)

lemma pickFeatures_disabled:
  "\<not> enablePickFeatures p \<Longrightarrow> pickFeatures w p x y zoom lon lat = (Inr None, p, [])"
  by (simp add: pickFeatures_def)

lemma pickFeatures_reads:
  assumes "enablePickFeatures p"
    and "imageAt p (levelAt (cogLevels p) (min zoom (maximumLevel p))) = (Inr img, p1)"
  shows "\<exists>res. pickFeatures w p x y zoom lon lat
           = (res, p1,
              [if truthyBool (convertToRGB (renderOptions p))
               then ReadRGB img (probeRead (probePixel (rectangle p) img lon lat))
               else ReadRasters img (probeRead (probePixel (rectangle p) img lon lat))])"
proof -
  have z: "(if zoom > maximumLevel p then maximumLevel p else zoom) = min zoom (maximumLevel p)"
    by (simp add: min_def)
  from imageAt_frame[OF assms(2)]
  have f: "rectangle p1 = rectangle p" "renderOptions p1 = renderOptions p"
    by simp_all
  show ?thesis
    using assms f unfolding pickFeatures_def z
    by (auto simp: Let_def readWindow_def split: prod.splits sum.splits)
qed

text \<open>When the image can neither be found nor fetched, the error goes to the caller and no
  read is issued.\<close>

lemma pickFeatures_fetch_failure:
  assumes "enablePickFeatures p"
    and "imageAt p (levelAt (cogLevels p) (min zoom (maximumLevel p))) = (Inl e, p1)"
  shows "pickFeatures w p x y zoom lon lat = (Inl e, p1, [])"
proof -
  have z: "(if zoom > maximumLevel p then maximumLevel p else zoom) = min zoom (maximumLevel p)"
    by (simp add: min_def)
  show ?thesis using assms unfolding pickFeatures_def z by simp
qed

lemma probeRead_one_pixel:
  "window (probeRead pos) = Some (fst pos, snd pos, fst pos + 1, snd pos + 1)
   \<and> width (probeRead pos) = Some 1 \<and> height (probeRead pos) = Some 1"
  by (cases pos) (simp add: probeRead_def)

text \<open>The column and the row of the probed pixel, operation by operation.\<close>

lemma probePixel_column:
  "fst (probePixel rect img lon lat)
     = toInt32 (jsMul
         (jsAbsDiv
            (if lon < west rect
             then jsAdd (jsSub (Finite lon) (Finite (west rect))) (Finite TWO_PI_double)
             else jsSub (Finite lon) (Finite (west rect)))
            (if east rect < west rect
             then jsSub (jsAdd (Finite (east rect)) (Finite TWO_PI_double)) (Finite (west rect))
             else jsSub (Finite (east rect)) (Finite (west rect))))
         (Finite (real_of_int (getWidth img))))"
  by (simp add: probePixel_def rectangleWidth_def Let_def)

lemma probePixel_row:
  "snd (probePixel rect img lon lat)
     = toInt32 (jsMul
         (jsAbsDiv (jsSub (Finite (north rect)) (Finite lat))
            (jsSub (Finite (north rect)) (Finite (south rect))))
         (Finite (real_of_int (getHeight img))))"
  by (simp add: probePixel_def Let_def)

text \<open>
  Claim C9, as the code has it. When probing is disabled, \<^verbatim>\<open>pickFeatures\<close> resolves to
  \<^verbatim>\<open>undefined\<close>, issues no read and leaves the provider as it was. In every case the tile
  cache plays no part: run on a provider with any other cache \<open>c\<close>, the probe gives the
  same result and the same reads and hands that cache back untouched. When probing is
  enabled, the zoom is clamped to \<open>maximumLevel\<close> and the image of that zoom is looked up
  and, if not held, fetched. If that fails (the fetch is rejected, the provider was
  destroyed), the error goes to the caller and no read is issued. Otherwise exactly one
  read is issued on that image (by \<^verbatim>\<open>readRGB\<close> under \<open>convertToRGB\<close>, by \<^verbatim>\<open>readRasters\<close>
  otherwise), with output size 1 x 1 and the window of the one pixel \<open>(posX, posY)\<close>:
  \<open>posX\<close> is \<^verbatim>\<open>~~\<close> of the absolute quotient of the longitude's gap to the west (plus a full
  turn when the longitude is below west) by the rectangle's width (east minus west, a
  full turn added to an east below west), times the image width; \<open>posY\<close> is \<^verbatim>\<open>~~\<close> of the
  absolute quotient of north minus latitude by north minus south, times the image
  height; every operation rounds to a double.
\<close>

theorem pickFeatures_probe:
  "(\<not> enablePickFeatures p \<longrightarrow> pickFeatures w p x y zoom lon lat = (Inr None, p, []))
   \<and> pickFeatures w (p\<lparr> this_imagesCache := c \<rparr>) x y zoom lon lat
       = (case pickFeatures w p x y zoom lon lat of
            (res, p', calls) \<Rightarrow> (res, p'\<lparr> this_imagesCache := c \<rparr>, calls))
   \<and> (enablePickFeatures p
       \<and> imageAt p (levelAt (cogLevels p) (min zoom (maximumLevel p))) = (Inl e, p0)
      \<longrightarrow> pickFeatures w p x y zoom lon lat = (Inl e, p0, []))
   \<and> (enablePickFeatures p
       \<and> imageAt p (levelAt (cogLevels p) (min zoom (maximumLevel p))) = (Inr img, p1)
      \<longrightarrow> (let rect = rectangle p;
               lonGap = (if lon < west rect
                         then jsAdd (jsSub (Finite lon) (Finite (west rect)))
                                (Finite TWO_PI_double)
                         else jsSub (Finite lon) (Finite (west rect)));
               lonWidth = (if east rect < west rect
                           then jsSub (jsAdd (Finite (east rect)) (Finite TWO_PI_double))
                                  (Finite (west rect))
                           else jsSub (Finite (east rect)) (Finite (west rect)));
               posX = toInt32 (jsMul (jsAbsDiv lonGap lonWidth)
                                 (Finite (real_of_int (getWidth img))));
               posY = toInt32 (jsMul (jsAbsDiv (jsSub (Finite (north rect)) (Finite lat))
                                        (jsSub (Finite (north rect)) (Finite (south rect))))
                                 (Finite (real_of_int (getHeight img))))
           in \<exists>res ropts.
                pickFeatures w p x y zoom lon lat
                  = (res, p1, [if truthyBool (convertToRGB (renderOptions p))
                               then ReadRGB img ropts else ReadRasters img ropts])
                \<and> window ropts = Some (posX, posY, posX + 1, posY + 1)
                \<and> width ropts = Some 1 \<and> height ropts = Some 1))"
proof (intro conjI impI)
  assume "\<not> enablePickFeatures p"
  then show "pickFeatures w p x y zoom lon lat = (Inr None, p, [])"
    by (rule pickFeatures_disabled)
next
  show "pickFeatures w (p\<lparr> this_imagesCache := c \<rparr>) x y zoom lon lat
       = (case pickFeatures w p x y zoom lon lat of
            (res, p', calls) \<Rightarrow> (res, p'\<lparr> this_imagesCache := c \<rparr>, calls))"
    by (rule pickFeatures_cache_independent)
next
  assume "enablePickFeatures p
       \<and> imageAt p (levelAt (cogLevels p) (min zoom (maximumLevel p))) = (Inl e, p0)"
  then show "pickFeatures w p x y zoom lon lat = (Inl e, p0, [])"
    using pickFeatures_fetch_failure by blast
next
  assume a: "enablePickFeatures p
       \<and> imageAt p (levelAt (cogLevels p) (min zoom (maximumLevel p))) = (Inr img, p1)"
  let ?px = "probePixel (rectangle p) img lon lat"
  from a pickFeatures_reads[of p zoom img p1 w x y lon lat]
  obtain res where r: "pickFeatures w p x y zoom lon lat
           = (res, p1, [if truthyBool (convertToRGB (renderOptions p))
               then ReadRGB img (probeRead ?px) else ReadRasters img (probeRead ?px)])"
    by blast
  from probeRead_one_pixel[of ?px]
  have o: "window (probeRead ?px) = Some (fst ?px, snd ?px, fst ?px + 1, snd ?px + 1)"
    "width (probeRead ?px) = Some 1" "height (probeRead ?px) = Some 1"
    by simp_all
  from r o have "\<exists>res ropts.
                pickFeatures w p x y zoom lon lat
                  = (res, p1, [if truthyBool (convertToRGB (renderOptions p))
                               then ReadRGB img ropts else ReadRasters img ropts])
                \<and> window ropts = Some (fst ?px, snd ?px, fst ?px + 1, snd ?px + 1)
                \<and> width ropts = Some 1 \<and> height ropts = Some 1"
    by blast
  then show "let rect = rectangle p;
               lonGap = (if lon < west rect
                         then jsAdd (jsSub (Finite lon) (Finite (west rect)))
                                (Finite TWO_PI_double)
                         else jsSub (Finite lon) (Finite (west rect)));
               lonWidth = (if east rect < west rect
                           then jsSub (jsAdd (Finite (east rect)) (Finite TWO_PI_double))
                                  (Finite (west rect))
                           else jsSub (Finite (east rect)) (Finite (west rect)));
               posX = toInt32 (jsMul (jsAbsDiv lonGap lonWidth)
                                 (Finite (real_of_int (getWidth img))));
               posY = toInt32 (jsMul (jsAbsDiv (jsSub (Finite (north rect)) (Finite lat))
                                        (jsSub (Finite (north rect)) (Finite (south rect))))
                                 (Finite (real_of_int (getHeight img))))
           in \<exists>res ropts.
                pickFeatures w p x y zoom lon lat
                  = (res, p1, [if truthyBool (convertToRGB (renderOptions p))
                               then ReadRGB img ropts else ReadRasters img ropts])
                \<and> window ropts = Some (posX, posY, posX + 1, posY + 1)
                \<and> width ropts = Some 1 \<and> height ropts = Some 1"
    by (simp only: Let_def probePixel_column probePixel_row)
qed

text \<open>A rectangle whose east equals its west has width 0: the quotient is an infinity or
  \<^verbatim>\<open>NaN\<close>, and the column is 0 for every point.\<close>

lemma toDouble_zero: "toDouble 0 = Finite 0"
proof -
  have "(0::real) < overflowBound" by (simp add: overflowBound_def)
  then show ?thesis by (simp add: toDouble_def roundHalfEven_def Let_def)
qed

lemma toInt32_of_times_not_finite:
  "v = NaN \<or> v = PosInfinity \<Longrightarrow> toInt32 (jsMul v (Finite a)) = 0"
  by (auto simp: toInt32_def)

lemma probePixel_zero_width:
  assumes "east rect = west rect"
  shows "fst (probePixel rect img lon lat) = 0"
proof -
  have w: "jsSub (Finite (east rect)) (Finite (west rect)) = Finite 0"
    using assms by (simp add: jsSub_def toDouble_zero)
  have "jsAbsDiv g (Finite 0) = NaN \<or> jsAbsDiv g (Finite 0) = PosInfinity" for g
    by (cases g) simp_all
  then show ?thesis
    unfolding probePixel_column using assms w
    by (simp add: toInt32_of_times_not_finite del: jsAbsDiv.simps(1))
qed

text \<open>A real that is an integer of fewer than 54 bits times a power of two is a double.\<close>

lemma exactI:
  "x = real_of_int m * pow2 k \<Longrightarrow> \<bar>m\<bar> < 2 ^ 53 \<Longrightarrow> - 1074 \<le> k \<Longrightarrow> \<bar>x\<bar> < 2 ^ 32
     \<Longrightarrow> toDouble x = Finite x"
  by (rule toDouble_exact) (auto intro: below_overflowBound)

text \<open>A point at -3 radians, west of the antimeridian, for the rectangle from 3 to 3.5
  radians: its gap to the west is \<open>-6\<close> plus a full turn, and every operation on the way to
  column 579 of the 1024 is exact. Its latitude of 1.25 radians lies north of the
  rectangle's north of 1: the quotient is negative and its absolute value gives row 256.\<close>

lemma crossing_pixel:
  "probePixel (rectangle crossingProvider) (rgbImage 1024) (- 3) (5 / 4) = (579, 256)"
proof -
  have d1: "toDouble (1 / 2) = Finite (1 / 2)"
    by (rule exactI[where m = 1 and k = "- 1"]) (simp_all add: pow2_def)
  have d2: "toDouble (- 6) = Finite (- 6)"
    by (rule exactI[where m = "- 6" and k = 0]) (simp_all add: pow2_def)
  have d3: "toDouble (39854788871587 / 140737488355328)
              = Finite (39854788871587 / 140737488355328)"
    by (rule exactI[where m = 39854788871587 and k = "- 47"]) (simp_all add: pow2_def)
  have d4: "toDouble (39854788871587 / 70368744177664)
              = Finite (39854788871587 / 70368744177664)"
    by (rule exactI[where m = 39854788871587 and k = "- 46"]) (simp_all add: pow2_def)
  have d5: "toDouble (39854788871587 / 68719476736) = Finite (39854788871587 / 68719476736)"
    by (rule exactI[where m = 39854788871587 and k = "- 36"]) (simp_all add: pow2_def)
  have d6: "toDouble (- (1 / 4)) = Finite (- (1 / 4))"
    by (rule exactI[where m = "- 1" and k = "- 2"]) (simp_all add: pow2_def)
  have d7: "toDouble 1 = Finite 1"
    by (rule exactI[where m = 1 and k = 0]) (simp_all add: pow2_def)
  have d8: "toDouble 256 = Finite 256"
    by (rule exactI[where m = 256 and k = 0]) (simp_all add: pow2_def)
  have w: "jsSub (Finite (7 / 2)) (Finite 3) = Finite (1 / 2)"
    using d1 by (simp add: jsSub_def)
  have g0: "jsSub (Finite (- 3)) (Finite 3) = Finite (- 6)"
    using d2 by (simp add: jsSub_def)
  have g: "jsAdd (Finite (- 6)) (Finite TWO_PI_double)
             = Finite (39854788871587 / 140737488355328)"
    using d3 by (simp add: TWO_PI_double_def)
  have q: "jsAbsDiv (Finite (39854788871587 / 140737488355328)) (Finite (1 / 2))
             = Finite (39854788871587 / 70368744177664)"
    using d4 by simp
  have m: "jsMul (Finite (39854788871587 / 70368744177664)) (Finite 1024)
             = Finite (39854788871587 / 68719476736)"
    using d5 by simp
  have t: "toInt32 (Finite (39854788871587 / 68719476736)) = 579"
    by (simp add: toInt32_def Let_def)
  have y0: "jsSub (Finite 1) (Finite (5 / 4)) = Finite (- (1 / 4))"
    using d6 by (simp add: jsSub_def)
  have y1: "jsSub (Finite 1) (Finite 0) = Finite 1"
    using d7 by (simp add: jsSub_def)
  have yq: "jsAbsDiv (Finite (- (1 / 4))) (Finite 1) = Finite (1 / 4)"
    using d6 by simp
  have ym: "jsMul (Finite (1 / 4)) (Finite 1024) = Finite 256"
    using d8 by simp
  have yt: "toInt32 (Finite 256) = 256" by (simp add: toInt32_def Let_def)
  have "fst (probePixel (rectangle crossingProvider) (rgbImage 1024) (- 3) (5 / 4))
          = toInt32 (jsMul (jsAbsDiv (jsAdd (jsSub (Finite (- 3)) (Finite 3))
                                        (Finite TWO_PI_double))
                              (jsSub (Finite (7 / 2)) (Finite 3)))
                      (Finite 1024))"
    unfolding probePixel_column
    by (simp add: crossingProvider_def rgbImage_def squareImage_def
        del: jsAdd.simps(1) jsMul.simps(1) jsAbsDiv.simps(1))
  also have "\<dots> = 579" by (simp only: g0 g w q m t)
  finally have c: "fst (probePixel (rectangle crossingProvider) (rgbImage 1024) (- 3) (5 / 4)) = 579" .
  have "snd (probePixel (rectangle crossingProvider) (rgbImage 1024) (- 3) (5 / 4))
          = toInt32 (jsMul (jsAbsDiv (jsSub (Finite 1) (Finite (5 / 4)))
                              (jsSub (Finite 1) (Finite 0)))
                      (Finite 1024))"
    unfolding probePixel_row
    by (simp add: crossingProvider_def rgbImage_def squareImage_def
        del: jsAdd.simps(1) jsMul.simps(1) jsAbsDiv.simps(1))
  also have "\<dots> = 256" by (simp only: y0 y1 yq ym yt)
  finally have r: "snd (probePixel (rectangle crossingProvider) (rgbImage 1024) (- 3) (5 / 4)) = 256" .
  from c r show ?thesis by (simp add: prod_eq_iff)
qed

text \<open>A point one 49th into a rectangle, on a 49-pixel image: the quotient 1/49 is rounded
  down to a double, its product with 49 is the double just below 1, and the truncation
  gives pixel 0, where the product of the reals is exactly 1.\<close>

lemma rounding_pixel:
  "probePixel (rectangle smallProvider) (rgbImage 49) (1 / 64) (3 / 4) = (0, 0)"
proof -
  have d1: "toDouble (1 / 64) = Finite (1 / 64)"
    by (rule exactI[where m = 1 and k = "- 6"]) (simp_all add: pow2_def)
  have d2: "toDouble (49 / 64) = Finite (49 / 64)"
    by (rule exactI[where m = 49 and k = "- 6"]) (simp_all add: pow2_def)
  have g: "jsSub (Finite (1 / 64)) (Finite 0) = Finite (1 / 64)"
    using d1 by (simp add: jsSub_def)
  have w: "jsSub (Finite (49 / 64)) (Finite 0) = Finite (49 / 64)"
    using d2 by (simp add: jsSub_def)
  have y: "jsSub (Finite (49 / 64)) (Finite (3 / 4)) = Finite (1 / 64)"
    using d1 by (simp add: jsSub_def)
  have q: "jsAbsDiv (Finite (1 / 64)) (Finite (49 / 64))
             = Finite (5882252574524729 / 288230376151711744)"
    using toDouble_49th by simp
  have m: "jsMul (Finite (5882252574524729 / 288230376151711744)) (Finite 49)
             = Finite (9007199254740991 / 9007199254740992)"
    using toDouble_49th_times_49 by simp
  have t: "toInt32 (Finite (9007199254740991 / 9007199254740992)) = 0"
    by (simp add: toInt32_def Let_def)
  have "fst (probePixel (rectangle smallProvider) (rgbImage 49) (1 / 64) (3 / 4))
          = toInt32 (jsMul (jsAbsDiv (jsSub (Finite (1 / 64)) (Finite 0))
                              (jsSub (Finite (49 / 64)) (Finite 0)))
                      (Finite 49))"
    unfolding probePixel_column
    by (simp add: smallProvider_def rgbImage_def squareImage_def
        del: jsAdd.simps(1) jsMul.simps(1) jsAbsDiv.simps(1))
  also have "\<dots> = 0" by (simp only: g w q m t)
  finally have c: "fst (probePixel (rectangle smallProvider) (rgbImage 49) (1 / 64) (3 / 4)) = 0" .
  have "snd (probePixel (rectangle smallProvider) (rgbImage 49) (1 / 64) (3 / 4))
          = toInt32 (jsMul (jsAbsDiv (jsSub (Finite (49 / 64)) (Finite (3 / 4)))
                              (jsSub (Finite (49 / 64)) (Finite 0)))
                      (Finite 49))"
    unfolding probePixel_row
    by (simp add: smallProvider_def rgbImage_def squareImage_def
        del: jsAdd.simps(1) jsMul.simps(1) jsAbsDiv.simps(1))
  also have "\<dots> = 0" by (simp only: y w q m t)
  finally have r: "snd (probePixel (rectangle smallProvider) (rgbImage 49) (1 / 64) (3 / 4)) = 0" .
  from c r show ?thesis by (simp add: prod_eq_iff)
qed

lemma crossing_image:
  "imageAt crossingProvider
     (levelAt (cogLevels crossingProvider) (min 5 (maximumLevel crossingProvider)))
   = (Inr (rgbImage 1024), holdingImage0 crossingProvider (rgbImage 1024))"
  by (simp add: imageAt_def levelAt_def crossingProvider_def rgbProvider_def holdingImage0_def
      rgbSource_def)

lemma small_image:
  "imageAt smallProvider (levelAt (cogLevels smallProvider) (min 1 (maximumLevel smallProvider)))
   = (Inr (rgbImage 49), holdingImage0 smallProvider (rgbImage 49))"
  by (simp add: imageAt_def levelAt_def smallProvider_def rgbProvider_def holdingImage0_def
      smallSource_def)

lemma offline_image:
  "imageAt offlineProvider
     (levelAt (cogLevels offlineProvider) (min 0 (maximumLevel offlineProvider)))
   = (Inl (Rejected ''fetch failed''), offlineProvider)"
  by (simp add: imageAt_def levelAt_def offlineProvider_def rgbProvider_def offlineSource_def)

text \<open>The theorem at three probes: the point west of the antimeridian (pixel 579, 256),
  the point whose pixel depends on the rounding (pixel 0, 0), and a source that rejects
  the fetch.\<close>

theorem pickFeatures_probe_witness:
  "enablePickFeatures crossingProvider
   \<and> imageAt crossingProvider
        (levelAt (cogLevels crossingProvider) (min 5 (maximumLevel crossingProvider)))
       = (Inr (rgbImage 1024), holdingImage0 crossingProvider (rgbImage 1024))
   \<and> (\<exists>res ropts.
         pickFeatures (worldAt goodDecoder 0) crossingProvider 0 0 5 (- 3) (5 / 4)
           = (res, holdingImage0 crossingProvider (rgbImage 1024),
              [ReadRGB (rgbImage 1024) ropts])
         \<and> window ropts = Some (579, 256, 580, 257)
         \<and> width ropts = Some 1 \<and> height ropts = Some 1)
   \<and> enablePickFeatures smallProvider
   \<and> imageAt smallProvider
        (levelAt (cogLevels smallProvider) (min 1 (maximumLevel smallProvider)))
       = (Inr (rgbImage 49), holdingImage0 smallProvider (rgbImage 49))
   \<and> (\<exists>res ropts.
         pickFeatures (worldAt goodDecoder 0) smallProvider 0 0 1 (1 / 64) (3 / 4)
           = (res, holdingImage0 smallProvider (rgbImage 49), [ReadRGB (rgbImage 49) ropts])
         \<and> window ropts = Some (0, 0, 1, 1)
         \<and> width ropts = Some 1 \<and> height ropts = Some 1)
   \<and> enablePickFeatures offlineProvider
   \<and> pickFeatures (worldAt goodDecoder 0) offlineProvider 0 0 0 0 0
       = (Inl (Rejected ''fetch failed''), offlineProvider, [])"
proof -
  have e1: "enablePickFeatures crossingProvider"
    by (simp add: crossingProvider_def rgbProvider_def)
  have t1: "truthyBool (convertToRGB (renderOptions crossingProvider))"
    by (simp add: crossingProvider_def rgbProvider_def rgbRenderOptions_def
        emptyRenderOptions_def truthyBool_def)
  have e2: "enablePickFeatures smallProvider"
    by (simp add: smallProvider_def rgbProvider_def)
  have t2: "truthyBool (convertToRGB (renderOptions smallProvider))"
    by (simp add: smallProvider_def rgbProvider_def rgbRenderOptions_def
        emptyRenderOptions_def truthyBool_def)
  have e3: "enablePickFeatures offlineProvider"
    by (simp add: offlineProvider_def rgbProvider_def)
  from pickFeatures_probe[of crossingProvider "worldAt goodDecoder 0" 0 0 5 "- 3" "5 / 4"
         "this_imagesCache crossingProvider" _ _ "rgbImage 1024"
         "holdingImage0 crossingProvider (rgbImage 1024)"] e1 crossing_image
  have "\<exists>res ropts.
         pickFeatures (worldAt goodDecoder 0) crossingProvider 0 0 5 (- 3) (5 / 4)
           = (res, holdingImage0 crossingProvider (rgbImage 1024),
              [if truthyBool (convertToRGB (renderOptions crossingProvider))
               then ReadRGB (rgbImage 1024) ropts else ReadRasters (rgbImage 1024) ropts])
         \<and> window ropts
             = Some (fst (probePixel (rectangle crossingProvider) (rgbImage 1024) (- 3) (5 / 4)),
                     snd (probePixel (rectangle crossingProvider) (rgbImage 1024) (- 3) (5 / 4)),
                     fst (probePixel (rectangle crossingProvider) (rgbImage 1024) (- 3) (5 / 4)) + 1,
                     snd (probePixel (rectangle crossingProvider) (rgbImage 1024) (- 3) (5 / 4)) + 1)
         \<and> width ropts = Some 1 \<and> height ropts = Some 1"
    by (simp only: Let_def probePixel_column probePixel_row)
  then have a: "\<exists>res ropts.
         pickFeatures (worldAt goodDecoder 0) crossingProvider 0 0 5 (- 3) (5 / 4)
           = (res, holdingImage0 crossingProvider (rgbImage 1024),
              [ReadRGB (rgbImage 1024) ropts])
         \<and> window ropts = Some (579, 256, 580, 257)
         \<and> width ropts = Some 1 \<and> height ropts = Some 1"
    unfolding crossing_pixel using t1 by simp
  from pickFeatures_probe[of smallProvider "worldAt goodDecoder 0" 0 0 1 "1 / 64" "3 / 4"
         "this_imagesCache smallProvider" _ _ "rgbImage 49"
         "holdingImage0 smallProvider (rgbImage 49)"] e2 small_image
  have "\<exists>res ropts.
         pickFeatures (worldAt goodDecoder 0) smallProvider 0 0 1 (1 / 64) (3 / 4)
           = (res, holdingImage0 smallProvider (rgbImage 49),
              [if truthyBool (convertToRGB (renderOptions smallProvider))
               then ReadRGB (rgbImage 49) ropts else ReadRasters (rgbImage 49) ropts])
         \<and> window ropts
             = Some (fst (probePixel (rectangle smallProvider) (rgbImage 49) (1 / 64) (3 / 4)),
                     snd (probePixel (rectangle smallProvider) (rgbImage 49) (1 / 64) (3 / 4)),
                     fst (probePixel (rectangle smallProvider) (rgbImage 49) (1 / 64) (3 / 4)) + 1,
                     snd (probePixel (rectangle smallProvider) (rgbImage 49) (1 / 64) (3 / 4)) + 1)
         \<and> width ropts = Some 1 \<and> height ropts = Some 1"
    by (simp only: Let_def probePixel_column probePixel_row)
  then have b: "\<exists>res ropts.
         pickFeatures (worldAt goodDecoder 0) smallProvider 0 0 1 (1 / 64) (3 / 4)
           = (res, holdingImage0 smallProvider (rgbImage 49), [ReadRGB (rgbImage 49) ropts])
         \<and> window ropts = Some (0, 0, 1, 1)
         \<and> width ropts = Some 1 \<and> height ropts = Some 1"
    unfolding rounding_pixel using t2 by simp
  from pickFeatures_probe[of offlineProvider "worldAt goodDecoder 0" 0 0 0 0 0
         "this_imagesCache offlineProvider" "Rejected ''fetch failed''" offlineProvider]
       e3 offline_image
  have c: "pickFeatures (worldAt goodDecoder 0) offlineProvider 0 0 0 0 0
       = (Inl (Rejected ''fetch failed''), offlineProvider, [])"
    by blast
  from e1 crossing_image a e2 small_image b e3 c show ?thesis by blast
qed

text \<open>
  Claim C9, as stated, at an enabled probe whose image cannot be had: on a source that
  rejects the fetch, and on a provider that was destroyed, \<^verbatim>\<open>pickFeatures\<close> ends with the
  error and has issued no read.
\<close>

theorem pickFeatures_no_read_counterexample:
  "enablePickFeatures offlineProvider
   \<and> pickFeatures (worldAt goodDecoder 0) offlineProvider 0 0 0 0 0
       = (Inl (Rejected ''fetch failed''), offlineProvider, [])
   \<and> enablePickFeatures (destroy (rgbProvider 1000))
   \<and> pickFeatures (worldAt goodDecoder 0) (destroy (rgbProvider 1000)) 0 0 0 0 0
       = (Inl (TypeError ''Cannot read properties of undefined''), destroy (rgbProvider 1000),
          [])"
  by (simp add: pickFeatures_def imageAt_def levelAt_def offlineProvider_def rgbProvider_def
      offlineSource_def destroy_def)


end
